theory Spec2Isabelle
  imports Main "HOL-Library.Word" "HOL-Library.Sublist"
begin

section \<open>JavaScript strings\<close>

text \<open>
  A JavaScript string is a sequence of UTF-16 code units. The difference to a byte
  string matters for \<^verbatim>\<open>btoa\<close>, which refuses every code unit above 0xFF.
  \<open>js\<close> embeds an ASCII literal.
\<close>

type_synonym code_unit = "16 word"
type_synonym jsstring = "code_unit list"

definition js :: "string \<Rightarrow> jsstring" where
  "js s = map (\<lambda>c. of_char c) s"

text \<open>\<^verbatim>\<open>String.prototype.startsWith\<close>, \<^verbatim>\<open>endsWith\<close> and \<^verbatim>\<open>includes\<close>,
  each called with one argument in the sources.\<close>

definition startsWith :: "jsstring \<Rightarrow> jsstring \<Rightarrow> bool" where
  "startsWith s p = prefix p s"

definition endsWith :: "jsstring \<Rightarrow> jsstring \<Rightarrow> bool" where
  "endsWith s p = suffix p s"

definition includes' :: "jsstring \<Rightarrow> jsstring \<Rightarrow> bool" where
  "includes' s p = sublist p s"

text \<open>\<^verbatim>\<open>s.split(sep)\<close> for a separator of one code unit: the pieces between the
  separators, so always at least one piece (\<^verbatim>\<open>''.split('\n')\<close> is \<^verbatim>\<open>['']\<close>).\<close>

fun jsSplit :: "code_unit \<Rightarrow> jsstring \<Rightarrow> jsstring list" where
  "jsSplit sep [] = [[]]"
| "jsSplit sep (c # cs) =
     (if c = sep then [] # jsSplit sep cs
      else (case jsSplit sep cs of
              [] \<Rightarrow> [[c]]
            | l # ls \<Rightarrow> (c # l) # ls))"

text \<open>Reading an array at an index: \<^verbatim>\<open>undefined\<close> (here \<open>None\<close>) past the end.\<close>

definition arrayGet :: "'a list \<Rightarrow> nat \<Rightarrow> 'a option" where
  "arrayGet xs i = (if i < length xs then Some (xs ! i) else None)"

text \<open>Truthiness of an optional string: \<^verbatim>\<open>undefined\<close>, \<^verbatim>\<open>null\<close> and the empty string
  are falsy.\<close>

definition truthy :: "jsstring option \<Rightarrow> bool" where
  "truthy v = (case v of None \<Rightarrow> False | Some s \<Rightarrow> s \<noteq> [])"

section \<open>Errors\<close>

text \<open>
  What the code can throw: \<^verbatim>\<open>new Error(message)\<close>, the \<^verbatim>\<open>TypeError\<close> of a
  \<^verbatim>\<open>fetch\<close> that could not reach the host, the \<^verbatim>\<open>SyntaxError\<close> of
  \<^verbatim>\<open>response.json()\<close> on a body that is not JSON, and the
  \<^verbatim>\<open>InvalidCharacterError\<close> of \<^verbatim>\<open>atob\<close> and \<^verbatim>\<open>btoa\<close>.
\<close>

datatype error =
    Error jsstring
  | TypeError
  | SyntaxError
  | InvalidCharacterError

section \<open>The platform's base64 functions\<close>

text \<open>
  \<^verbatim>\<open>btoa\<close> and \<^verbatim>\<open>atob\<close> are the browser's (HTML standard, "Base64 utility
  methods"). \<^verbatim>\<open>btoa(data)\<close> throws when \<open>data\<close> holds a code unit above 0xFF and
  otherwise encodes the code units as bytes (RFC 4648, with padding).
\<close>

definition base64Alphabet :: jsstring where
  "base64Alphabet = js ''ABCDEFGHIJKLMNOPQRSTUVWXYZabcdefghijklmnopqrstuvwxyz0123456789+/''"

definition base64Char :: "nat \<Rightarrow> code_unit" where
  "base64Char n = base64Alphabet ! (n mod 64)"

definition padChar :: code_unit where
  "padChar = 0x3D"

fun base64Encode :: "nat list \<Rightarrow> jsstring" where
  "base64Encode (a # b # c # rest) =
     [base64Char (a div 4), base64Char ((a mod 4) * 16 + b div 16),
      base64Char ((b mod 16) * 4 + c div 64), base64Char (c mod 64)] @ base64Encode rest"
| "base64Encode [a, b] =
     [base64Char (a div 4), base64Char ((a mod 4) * 16 + b div 16),
      base64Char ((b mod 16) * 4), padChar]"
| "base64Encode [a] =
     [base64Char (a div 4), base64Char ((a mod 4) * 16), padChar, padChar]"
| "base64Encode [] = []"

definition btoa :: "jsstring \<Rightarrow> error + jsstring" where
  "btoa data =
     (if list_ex (\<lambda>c. 0xFF < c) data then Inl InvalidCharacterError
      else Inr (base64Encode (map unat data)))"

text \<open>
  \<^verbatim>\<open>atob(data)\<close> is the standard's forgiving-base64 decode: ASCII whitespace is
  removed; when the length is then a multiple of four, one or two trailing \<^verbatim>\<open>=\<close> are
  removed; a length of 1 modulo 4, or a code unit outside the alphabet, throws; every
  four characters give three bytes, and a rest of three or two characters gives two
  bytes or one. The result holds one code unit per byte.
\<close>

definition isAsciiWhitespace :: "code_unit \<Rightarrow> bool" where
  "isAsciiWhitespace c = (c = 0x09 \<or> c = 0x0A \<or> c = 0x0C \<or> c = 0x0D \<or> c = 0x20)"

text \<open>The position of a code unit in a table, if it is there.\<close>

fun indexOf :: "'a \<Rightarrow> 'a list \<Rightarrow> nat option" where
  "indexOf x [] = None"
| "indexOf x (y # ys) = (if x = y then Some 0 else map_option Suc (indexOf x ys))"

definition base64Index :: "code_unit \<Rightarrow> nat option" where
  "base64Index c = indexOf c base64Alphabet"

definition dropPad :: "jsstring \<Rightarrow> jsstring" where
  "dropPad d = (if d \<noteq> [] \<and> last d = padChar then butlast d else d)"

definition stripPadding :: "jsstring \<Rightarrow> jsstring" where
  "stripPadding d = (if length d mod 4 = 0 then dropPad (dropPad d) else d)"

fun base64Decode :: "nat list \<Rightarrow> nat list" where
  "base64Decode (a # b # c # d # rest) =
     [a * 4 + b div 16, (b mod 16) * 16 + c div 4, (c mod 4) * 64 + d] @ base64Decode rest"
| "base64Decode [a, b, c] = [a * 4 + b div 16, (b mod 16) * 16 + c div 4]"
| "base64Decode [a, b] = [a * 4 + b div 16]"
| "base64Decode [a] = []"
| "base64Decode [] = []"

definition atob :: "jsstring \<Rightarrow> error + jsstring" where
  "atob data =
     (let d = stripPadding (filter (\<lambda>c. \<not> isAsciiWhitespace c) data) in
      if length d mod 4 = 1 then Inl InvalidCharacterError
      else (case those (map base64Index d) of
              None \<Rightarrow> Inl InvalidCharacterError
            | Some sextets \<Rightarrow> Inr (map of_nat (base64Decode sextets))))"

section \<open>Data of the host's REST interface\<close>

text \<open>
  The interfaces of \<^verbatim>\<open>src/lib/github.ts\<close>. An optional field (\<^verbatim>\<open>content?\<close>) is an
  \<open>option\<close>. Payloads are read at the interface types the functions declare.
\<close>

record GitHubUser =
  login :: jsstring
  id' :: int
  avatar_url :: jsstring
  name :: jsstring

record GitHubRepo =
  id' :: int
  name :: jsstring
  full_name :: jsstring
  description :: jsstring
  default_branch :: jsstring
  private' :: bool

record Commit =
  sha :: jsstring

record GitHubBranch =
  name :: jsstring
  commit :: Commit

text \<open>The payload of the git-refs endpoints, of which \<^verbatim>\<open>createBranch\<close> reads
  \<^verbatim>\<open>object.sha\<close>.\<close>

record GitObject =
  sha :: jsstring

record GitRef =
  object :: GitObject

record GitHubFile =
  name :: jsstring
  path :: jsstring
  content :: "jsstring option"
  sha :: jsstring
  type :: "jsstring option"
  encoding :: "jsstring option"

section \<open>The browser: credential store, network, console\<close>

text \<open>
  A request is the URL and the \<^verbatim>\<open>RequestInit\<close> handed to \<^verbatim>\<open>fetch\<close>. The body is
  the object given to \<^verbatim>\<open>JSON.stringify\<close>, kept as its list of fields (all of them
  strings in the sources).
\<close>

record RequestInit =
  http_method :: "jsstring option"
  headers :: "(jsstring \<times> jsstring) list"
  body :: "(jsstring \<times> jsstring) list option"

record Request =
  url :: jsstring
  init :: RequestInit

text \<open>A response: \<^verbatim>\<open>response.ok\<close>, \<^verbatim>\<open>response.statusText\<close>, and what
  \<^verbatim>\<open>response.json()\<close> resolves to (\<open>None\<close> when the body is not JSON and the
  call rejects).\<close>

record 'a Response =
  ok :: bool
  statusText :: jsstring
  json :: "'a option"

text \<open>
  The network answers a request knowing every request issued so far (the last one is
  the request being answered); \<open>None\<close> is a \<^verbatim>\<open>fetch\<close> that rejects. Nothing is
  assumed about the host: the same request may be answered differently each time.
\<close>

type_synonym 'a Net = "Request list \<Rightarrow> 'a Response option"

text \<open>The host as the code reads it: one answer function per payload type the
  sources declare; \<open>'j\<close> is the \<^verbatim>\<open>any\<close> that \<^verbatim>\<open>updateRepoFile\<close> returns.\<close>

record 'j Host =
  userApi :: "GitHubUser Net"
  reposApi :: "GitHubRepo list Net"
  branchesApi :: "GitHubBranch list Net"
  fileApi :: "GitHubFile Net"
  contentsApi :: "GitHubFile list Net"
  refsApi :: "GitRef Net"
  updateApi :: "'j Net"

text \<open>The state the functions act on: \<^verbatim>\<open>localStorage\<close>, the requests issued so far
  and the errors printed by \<^verbatim>\<open>console.error\<close>.\<close>

record World =
  localStorage :: "jsstring \<rightharpoonup> jsstring"
  requests :: "Request list"
  console :: "error list"

text \<open>An \<^verbatim>\<open>async\<close> function's promise, once settled: rejected with an error (\<open>Inl\<close>)
  or resolved with a value (\<open>Inr\<close>), and the state it leaves.\<close>

type_synonym 'a Promise = "(error + 'a) \<times> World"

definition setGitHubToken :: "jsstring \<Rightarrow> World \<Rightarrow> World" where
  "setGitHubToken token w = w\<lparr>localStorage := (localStorage w)(js ''github_token'' \<mapsto> token)\<rparr>"

definition getGitHubToken :: "World \<Rightarrow> jsstring option" where
  "getGitHubToken w = localStorage w (js ''github_token'')"

definition clearGitHubToken :: "World \<Rightarrow> World" where
  "clearGitHubToken w = w\<lparr>localStorage := (localStorage w)(js ''github_token'' := None)\<rparr>"

definition fetch :: "'a Net \<Rightarrow> Request \<Rightarrow> World \<Rightarrow> 'a Response Promise" where
  "fetch net req w =
     (let w' = w\<lparr>requests := requests w @ [req]\<rparr> in
      case net (requests w') of
        None \<Rightarrow> (Inl TypeError, w')
      | Some response \<Rightarrow> (Inr response, w'))"

section \<open>The host API client\<close>

definition noOptions :: RequestInit where
  "noOptions = \<lparr>http_method = None, headers = [], body = None\<rparr>"

text \<open>The arguments \<^verbatim>\<open>githubApi\<close> hands to \<^verbatim>\<open>fetch\<close>, lines 65-72: the options
  with the two headers put before the caller's.\<close>

definition apiRequest :: "jsstring \<Rightarrow> jsstring \<Rightarrow> RequestInit \<Rightarrow> Request" where
  "apiRequest token endpoint options =
     \<lparr>url = js ''https://api.github.com'' @ endpoint,
      init = options\<lparr>headers :=
        [(js ''Authorization'', js ''Bearer '' @ token),
         (js ''Accept'', js ''application/vnd.github.v3+json'')] @ headers options\<rparr>\<rparr>"

text \<open>\<^verbatim>\<open>githubApi(endpoint, options = {})\<close>, lines 59-79.\<close>

definition githubApi :: "'a Net \<Rightarrow> jsstring \<Rightarrow> RequestInit \<Rightarrow> World \<Rightarrow> 'a Promise" where
  "githubApi net endpoint options w =
     (let token = getGitHubToken w in
      if \<not> truthy token then (Inl (Error (js ''No GitHub token found'')), w)
      else
        (case fetch net (apiRequest (the token) endpoint options) w of
           (Inl e, w') \<Rightarrow> (Inl e, w')
         | (Inr response, w') \<Rightarrow>
             if \<not> ok response
             then (Inl (Error (js ''GitHub API error: '' @ statusText response)), w')
             else (case json response of
                     None \<Rightarrow> (Inl SyntaxError, w')
                   | Some v \<Rightarrow> (Inr v, w'))))"

definition getGitHubUser :: "'j Host \<Rightarrow> World \<Rightarrow> GitHubUser Promise" where
  "getGitHubUser h w = githubApi (userApi h) (js ''/user'') noOptions w"

definition getGitHubRepos :: "'j Host \<Rightarrow> World \<Rightarrow> GitHubRepo list Promise" where
  "getGitHubRepos h w =
     githubApi (reposApi h) (js ''/user/repos?sort=updated&per_page=100'') noOptions w"

definition getRepoBranches ::
  "'j Host \<Rightarrow> jsstring \<Rightarrow> jsstring \<Rightarrow> World \<Rightarrow> GitHubBranch list Promise" where
  "getRepoBranches h owner repo w =
     githubApi (branchesApi h) (js ''/repos/'' @ owner @ js ''/'' @ repo @ js ''/branches'')
       noOptions w"

text \<open>\<^verbatim>\<open>branch ? `?ref=${branch}` : ''\<close>\<close>

definition refQuery :: "jsstring option \<Rightarrow> jsstring" where
  "refQuery branch = (if truthy branch then js ''?ref='' @ the branch else [])"

definition contentsEndpoint ::
  "jsstring \<Rightarrow> jsstring \<Rightarrow> jsstring \<Rightarrow> jsstring option \<Rightarrow> jsstring" where
  "contentsEndpoint owner repo path' branch =
     js ''/repos/'' @ owner @ js ''/'' @ repo @ js ''/contents/'' @ path' @ refQuery branch"

text \<open>The base64 step of \<^verbatim>\<open>getRepoFile\<close>, lines 101-104:
  \<^verbatim>\<open>if (data.content && data.encoding === 'base64') data.content = atob(data.content)\<close>.\<close>

definition decodeContent :: "GitHubFile \<Rightarrow> error + GitHubFile" where
  "decodeContent data =
     (if truthy (content data) \<and> encoding data = Some (js ''base64'')
      then (case atob (the (content data)) of
              Inl e \<Rightarrow> Inl e
            | Inr decoded \<Rightarrow> Inr (data\<lparr>content := Some decoded\<rparr>))
      else Inr data)"

text \<open>\<^verbatim>\<open>getRepoFile(owner, repo, path, branch?)\<close>, lines 97-107.\<close>

definition getRepoFile ::
  "'j Host \<Rightarrow> jsstring \<Rightarrow> jsstring \<Rightarrow> jsstring \<Rightarrow> jsstring option \<Rightarrow> World
    \<Rightarrow> GitHubFile Promise" where
  "getRepoFile h owner repo path' branch w =
     (case githubApi (fileApi h) (contentsEndpoint owner repo path' branch) noOptions w of
        (Inl e, w') \<Rightarrow> (Inl e, w')
      | (Inr data, w') \<Rightarrow> (decodeContent data, w'))"

text \<open>\<^verbatim>\<open>getRepoContents(owner, repo, path = '', branch?)\<close>, lines 110-113.\<close>

definition getRepoContents ::
  "'j Host \<Rightarrow> jsstring \<Rightarrow> jsstring \<Rightarrow> jsstring \<Rightarrow> jsstring option \<Rightarrow> World
    \<Rightarrow> GitHubFile list Promise" where
  "getRepoContents h owner repo path' branch w =
     githubApi (contentsApi h) (contentsEndpoint owner repo path' branch) noOptions w"

text \<open>The arguments of the \<^verbatim>\<open>fetch\<close> in \<^verbatim>\<open>updateRepoFile\<close>, lines 130-143;
  \<open>encoded\<close> is the value of \<^verbatim>\<open>btoa(content)\<close>.\<close>

definition updateRequest ::
  "jsstring \<Rightarrow> jsstring \<Rightarrow> jsstring \<Rightarrow> jsstring \<Rightarrow> jsstring \<Rightarrow> jsstring \<Rightarrow> jsstring
    \<Rightarrow> jsstring \<Rightarrow> Request" where
  "updateRequest token owner repo path' encoded message sha' branch =
     \<lparr>url = js ''https://api.github.com/repos/'' @ owner @ js ''/'' @ repo
              @ js ''/contents/'' @ path',
      init = \<lparr>http_method = Some (js ''PUT''),
              headers =
                [(js ''Authorization'', js ''Bearer '' @ token),
                 (js ''Accept'', js ''application/vnd.github.v3+json''),
                 (js ''Content-Type'', js ''application/json'')],
              body = Some [(js ''message'', message), (js ''content'', encoded),
                           (js ''sha'', sha'), (js ''branch'', branch)]\<rparr>\<rparr>"

text \<open>\<^verbatim>\<open>updateRepoFile\<close>, lines 116-150. The arguments of \<^verbatim>\<open>fetch\<close> are evaluated
  before the call, so a \<^verbatim>\<open>btoa\<close> that throws leaves no request.\<close>

definition updateRepoFile ::
  "'j Host \<Rightarrow> jsstring \<Rightarrow> jsstring \<Rightarrow> jsstring \<Rightarrow> jsstring \<Rightarrow> jsstring \<Rightarrow> jsstring
    \<Rightarrow> jsstring \<Rightarrow> World \<Rightarrow> 'j Promise" where
  "updateRepoFile h owner repo path' content' message sha' branch w =
     (let token = getGitHubToken w in
      if \<not> truthy token then (Inl (Error (js ''No GitHub token found'')), w)
      else
        (case btoa content' of
           Inl e \<Rightarrow> (Inl e, w)
         | Inr encoded \<Rightarrow>
             (case fetch (updateApi h)
                     (updateRequest (the token) owner repo path' encoded message sha' branch)
                     w of
                (Inl e, w') \<Rightarrow> (Inl e, w')
              | (Inr response, w') \<Rightarrow>
                  if \<not> ok response
                  then (Inl (Error (js ''Failed to update file: '' @ statusText response)), w')
                  else (case json response of
                          None \<Rightarrow> (Inl SyntaxError, w')
                        | Some v \<Rightarrow> (Inr v, w')))))"

text \<open>The endpoint of the first call of \<^verbatim>\<open>createBranch\<close>, line 165, and the
  arguments of its \<^verbatim>\<open>fetch\<close>, lines 169-180.\<close>

definition headRefEndpoint :: "jsstring \<Rightarrow> jsstring \<Rightarrow> jsstring \<Rightarrow> jsstring" where
  "headRefEndpoint owner repo fromBranch =
     js ''/repos/'' @ owner @ js ''/'' @ repo @ js ''/git/refs/heads/'' @ fromBranch"

definition createRefRequest ::
  "jsstring \<Rightarrow> jsstring \<Rightarrow> jsstring \<Rightarrow> jsstring \<Rightarrow> jsstring \<Rightarrow> Request" where
  "createRefRequest token owner repo newBranchName sha' =
     \<lparr>url = js ''https://api.github.com/repos/'' @ owner @ js ''/'' @ repo @ js ''/git/refs'',
      init = \<lparr>http_method = Some (js ''POST''),
              headers =
                [(js ''Authorization'', js ''Bearer '' @ token),
                 (js ''Accept'', js ''application/vnd.github.v3+json''),
                 (js ''Content-Type'', js ''application/json'')],
              body = Some [(js ''ref'', js ''refs/heads/'' @ newBranchName),
                           (js ''sha'', sha')]\<rparr>\<rparr>"

text \<open>\<^verbatim>\<open>createBranch\<close>, lines 153-191.\<close>

definition createBranch ::
  "'j Host \<Rightarrow> jsstring \<Rightarrow> jsstring \<Rightarrow> jsstring \<Rightarrow> jsstring \<Rightarrow> World
    \<Rightarrow> GitHubBranch Promise" where
  "createBranch h owner repo newBranchName fromBranch w =
     (let token = getGitHubToken w in
      if \<not> truthy token then (Inl (Error (js ''No GitHub token found'')), w)
      else
        (case githubApi (refsApi h) (headRefEndpoint owner repo fromBranch) noOptions w of
           (Inl e, w1) \<Rightarrow> (Inl e, w1)
         | (Inr fromBranchData, w1) \<Rightarrow>
             (let sha' = GitObject.sha (object fromBranchData) in
              case fetch (refsApi h)
                     (createRefRequest (the token) owner repo newBranchName sha') w1 of
                (Inl e, w2) \<Rightarrow> (Inl e, w2)
              | (Inr response, w2) \<Rightarrow>
                  if \<not> ok response
                  then (Inl (Error (js ''Failed to create branch: '' @ statusText response)), w2)
                  else (case json response of
                          None \<Rightarrow> (Inl SyntaxError, w2)
                        | Some data \<Rightarrow>
                            (Inr \<lparr>GitHubBranch.name = newBranchName,
                                  commit = \<lparr>Commit.sha = GitObject.sha (object data)\<rparr>\<rparr>, w2)))))"

section \<open>The repository infrastructure scanner\<close>

record RepoAnalysis =
  hasDockerCompose :: bool
  hasDockerfile :: bool
  hasTerraform :: bool
  hasKubernetes :: bool
  dockerComposeFile :: "GitHubFile option"
  dockerfiles :: "GitHubFile list"
  terraformFiles :: "GitHubFile list"
  kubernetesFiles :: "GitHubFile list"

text \<open>The object literal of lines 206-214.\<close>

definition emptyAnalysis :: RepoAnalysis where
  "emptyAnalysis =
     \<lparr>hasDockerCompose = False, hasDockerfile = False, hasTerraform = False,
      hasKubernetes = False, dockerComposeFile = None, dockerfiles = [],
      terraformFiles = [], kubernetesFiles = []\<rparr>"

text \<open>The four tests on \<^verbatim>\<open>file.name\<close>, lines 222, 228, 235 and 242. The regular
  expression \<^verbatim>\<open>/^docker-compose\.(yml|yaml)$/\<close> has no flag, so \<^verbatim>\<open>^\<close> and \<^verbatim>\<open>$\<close> are
  the two ends of the name.\<close>

definition matchesDockerCompose :: "jsstring \<Rightarrow> bool" where
  "matchesDockerCompose n =
     (n = js ''docker-compose.'' @ js ''yml'' \<or> n = js ''docker-compose.'' @ js ''yaml'')"

definition isDockerfile :: "jsstring \<Rightarrow> bool" where
  "isDockerfile n = (n = js ''Dockerfile'' \<or> startsWith n (js ''Dockerfile.''))"

definition isTerraform :: "jsstring \<Rightarrow> bool" where
  "isTerraform n = endsWith n (js ''.tf'')"

definition isKubernetes :: "jsstring \<Rightarrow> bool" where
  "isKubernetes n = (includes' n (js ''k8s'') \<or> includes' n (js ''kubernetes''))"

text \<open>
  The state of the loop: the error thrown, if any, the analysis object as mutated so
  far, and the world. The analysis is mutated in place, so what was assigned before a
  throw stays assigned.
\<close>

type_synonym Scan = "error option \<times> RepoAnalysis \<times> World"

text \<open>Statement after statement: the next one runs only if nothing was thrown.\<close>

definition andThen :: "Scan \<Rightarrow> (RepoAnalysis \<Rightarrow> World \<Rightarrow> Scan) \<Rightarrow> Scan" where
  "andThen s f = (case s of (Some e, a, w) \<Rightarrow> (Some e, a, w) | (None, a, w) \<Rightarrow> f a w)"

text \<open>Lines 222-225.\<close>

definition checkDockerCompose ::
  "'j Host \<Rightarrow> jsstring \<Rightarrow> jsstring \<Rightarrow> jsstring option \<Rightarrow> GitHubFile \<Rightarrow> RepoAnalysis \<Rightarrow> World
    \<Rightarrow> Scan" where
  "checkDockerCompose h owner repo branch file a w =
     (if matchesDockerCompose (name file) then
        (case getRepoFile h owner repo (path file) branch w of
           (Inl e, w') \<Rightarrow> (Some e, a\<lparr>hasDockerCompose := True\<rparr>, w')
         | (Inr f, w') \<Rightarrow>
             (None, a\<lparr>hasDockerCompose := True, dockerComposeFile := Some f\<rparr>, w'))
      else (None, a, w))"

text \<open>Lines 228-232.\<close>

definition checkDockerfile ::
  "'j Host \<Rightarrow> jsstring \<Rightarrow> jsstring \<Rightarrow> jsstring option \<Rightarrow> GitHubFile \<Rightarrow> RepoAnalysis \<Rightarrow> World
    \<Rightarrow> Scan" where
  "checkDockerfile h owner repo branch file a w =
     (if isDockerfile (name file) then
        (case getRepoFile h owner repo (path file) branch w of
           (Inl e, w') \<Rightarrow> (Some e, a\<lparr>hasDockerfile := True\<rparr>, w')
         | (Inr dockerfileContent, w') \<Rightarrow>
             (None, a\<lparr>hasDockerfile := True,
                       dockerfiles := dockerfiles a @ [dockerfileContent]\<rparr>, w'))
      else (None, a, w))"

text \<open>Lines 235-239.\<close>

definition checkTerraform ::
  "'j Host \<Rightarrow> jsstring \<Rightarrow> jsstring \<Rightarrow> jsstring option \<Rightarrow> GitHubFile \<Rightarrow> RepoAnalysis \<Rightarrow> World
    \<Rightarrow> Scan" where
  "checkTerraform h owner repo branch file a w =
     (if isTerraform (name file) then
        (case getRepoFile h owner repo (path file) branch w of
           (Inl e, w') \<Rightarrow> (Some e, a\<lparr>hasTerraform := True\<rparr>, w')
         | (Inr tfContent, w') \<Rightarrow>
             (None, a\<lparr>hasTerraform := True,
                       terraformFiles := terraformFiles a @ [tfContent]\<rparr>, w'))
      else (None, a, w))"

text \<open>Lines 242-248.\<close>

definition checkKubernetes ::
  "'j Host \<Rightarrow> jsstring \<Rightarrow> jsstring \<Rightarrow> jsstring option \<Rightarrow> GitHubFile \<Rightarrow> RepoAnalysis \<Rightarrow> World
    \<Rightarrow> Scan" where
  "checkKubernetes h owner repo branch file a w =
     (if isKubernetes (name file) then
        (if type file = Some (js ''file'') then
           (case getRepoFile h owner repo (path file) branch w of
              (Inl e, w') \<Rightarrow> (Some e, a\<lparr>hasKubernetes := True\<rparr>, w')
            | (Inr k8sContent, w') \<Rightarrow>
                (None, a\<lparr>hasKubernetes := True,
                          kubernetesFiles := kubernetesFiles a @ [k8sContent]\<rparr>, w'))
         else (None, a\<lparr>hasKubernetes := True\<rparr>, w))
      else (None, a, w))"

text \<open>The body of the \<^verbatim>\<open>for\<close> loop, lines 221-248: the four \<^verbatim>\<open>if\<close> statements in
  order.\<close>

definition analyzeEntry ::
  "'j Host \<Rightarrow> jsstring \<Rightarrow> jsstring \<Rightarrow> jsstring option \<Rightarrow> GitHubFile \<Rightarrow> RepoAnalysis \<Rightarrow> World
    \<Rightarrow> Scan" where
  "analyzeEntry h owner repo branch file a w =
     andThen (andThen (andThen
       (checkDockerCompose h owner repo branch file a w)
       (checkDockerfile h owner repo branch file))
       (checkTerraform h owner repo branch file))
       (checkKubernetes h owner repo branch file)"

text \<open>The loop \<^verbatim>\<open>for (const file of rootContents)\<close>, line 220.\<close>

fun scanEntries ::
  "'j Host \<Rightarrow> jsstring \<Rightarrow> jsstring \<Rightarrow> jsstring option \<Rightarrow> GitHubFile list \<Rightarrow> RepoAnalysis
    \<Rightarrow> World \<Rightarrow> Scan" where
  "scanEntries h owner repo branch [] a w = (None, a, w)"
| "scanEntries h owner repo branch (file # rest) a w =
     (case analyzeEntry h owner repo branch file a w of
        (Some e, a', w') \<Rightarrow> (Some e, a', w')
      | (None, a', w') \<Rightarrow> scanEntries h owner repo branch rest a' w')"

text \<open>\<^verbatim>\<open>analyzeRepository\<close>, lines 205-255: the \<^verbatim>\<open>try\<close> block is the listing and the
  loop, the \<^verbatim>\<open>catch\<close> prints the error, and the analysis object is returned either
  way.\<close>

definition analyzeRepository ::
  "'j Host \<Rightarrow> jsstring \<Rightarrow> jsstring \<Rightarrow> jsstring option \<Rightarrow> World \<Rightarrow> RepoAnalysis Promise" where
  "analyzeRepository h owner repo branch w =
     (case getRepoContents h owner repo [] branch w of
        (Inl e, w') \<Rightarrow> (Inr emptyAnalysis, w'\<lparr>console := console w' @ [e]\<rparr>)
      | (Inr rootContents, w') \<Rightarrow>
          (case scanEntries h owner repo branch rootContents emptyAnalysis w' of
             (Some e, a, w'') \<Rightarrow> (Inr a, w''\<lparr>console := console w'' @ [e]\<rparr>)
           | (None, a, w'') \<Rightarrow> (Inr a, w'')))"

section \<open>The diff renderer\<close>

text \<open>
  \<^verbatim>\<open>renderDiff\<close> of the commit dialog, \<^verbatim>\<open>src/app/project/[id]/page.tsx\<close>, lines
  618-643. A row of the rendered list is the text of its two cells
  (\<^verbatim>\<open>oldLine || ' '\<close>) and the flag that picks the highlighting.
\<close>

record DiffRow =
  oldCell :: jsstring
  newCell :: jsstring
  changed :: bool

definition newline :: code_unit where
  "newline = 0x0A"

definition cellText :: "jsstring option \<Rightarrow> jsstring" where
  "cellText line = (if truthy line then the line else js '' '')"

definition renderDiff :: "jsstring \<Rightarrow> jsstring \<Rightarrow> DiffRow list" where
  "renderDiff oldContent newContent =
     (let oldLines = jsSplit newline oldContent;
          newLines = jsSplit newline newContent;
          maxLines = max (length oldLines) (length newLines)
      in map (\<lambda>i. let oldLine = arrayGet oldLines i;
                       newLine = arrayGet newLines i
                   in \<lparr>oldCell = cellText oldLine, newCell = cellText newLine,
                       changed = (oldLine \<noteq> newLine)\<rparr>)
             [0..<maxLines])"

text \<open>The specification's wording of the comparison: the shorter sequence is padded
  with empty lines, and a row is changed when the padded lines differ.\<close>

definition paddedLine :: "jsstring list \<Rightarrow> nat \<Rightarrow> jsstring" where
  "paddedLine ls i = (if i < length ls then ls ! i else [])"

definition paddedChanged :: "jsstring \<Rightarrow> jsstring \<Rightarrow> nat \<Rightarrow> bool" where
  "paddedChanged oldContent newContent i =
     (paddedLine (jsSplit newline oldContent) i \<noteq> paddedLine (jsSplit newline newContent) i)"

section \<open>Sample worlds and hosts\<close>

text \<open>Concrete inputs, on which the theorems below are evaluated: a browser with and
  without a stored token, directory entries, and a host that lists a given root
  directory and answers every file request with a base64 payload, except for the
  requests whose URL ends with one of the paths named as missing, which it answers with
  status 404.\<close>

definition signedOut :: World where
  "signedOut = \<lparr>localStorage = Map.empty, requests = [], console = []\<rparr>"

definition signedIn :: World where
  "signedIn = setGitHubToken (js ''t0'') signedOut"

definition rootEntry :: "jsstring \<Rightarrow> jsstring \<Rightarrow> GitHubFile" where
  "rootEntry n t = \<lparr>name = n, path = n, content = None, sha = js ''0a'', type = Some t,
               encoding = None\<rparr>"

definition blob :: "jsstring \<Rightarrow> GitHubFile" where
  "blob u = \<lparr>name = js ''blob'', path = u, content = Some (js ''aGk=''), sha = js ''0b'',
             type = Some (js ''file''), encoding = Some (js ''base64'')\<rparr>"

definition respond :: "'a \<Rightarrow> 'a Response" where
  "respond v = \<lparr>ok = True, statusText = js ''OK'', json = Some v\<rparr>"

definition refuse :: "jsstring \<Rightarrow> 'a Response" where
  "refuse status = \<lparr>ok = False, statusText = status, json = None\<rparr>"

definition isMissing :: "jsstring list \<Rightarrow> Request list \<Rightarrow> bool" where
  "isMissing missing rs = list_ex (endsWith (url (last rs))) missing"

definition sampleHost :: "GitHubFile list \<Rightarrow> jsstring list \<Rightarrow> unit Host" where
  "sampleHost listing missing =
     \<lparr>userApi = (\<lambda>rs. None),
      reposApi = (\<lambda>rs. None),
      branchesApi = (\<lambda>rs. None),
      fileApi = (\<lambda>rs. if isMissing missing rs then Some (refuse (js ''Not Found''))
                       else Some (respond (blob (url (last rs))))),
      contentsApi = (\<lambda>rs. if isMissing missing rs then Some (refuse (js ''Not Found''))
                           else Some (respond listing)),
      refsApi = (\<lambda>rs. if isMissing missing rs then Some (refuse (js ''Not Found''))
                       else Some (respond \<lparr>object = \<lparr>GitObject.sha = js ''c0de''\<rparr>\<rparr>)),
      updateApi = (\<lambda>rs. Some (respond ()))\<rparr>"

text \<open>A host that lists a given root directory and answers every file request with the
  same base64 payload, except the request that is the \<open>k\<close>-th of the session, which it
  answers with status 404.\<close>

definition countingHost :: "GitHubFile list \<Rightarrow> nat \<Rightarrow> unit Host" where
  "countingHost listing k =
     \<lparr>userApi = (\<lambda>rs. None),
      reposApi = (\<lambda>rs. None),
      branchesApi = (\<lambda>rs. None),
      fileApi = (\<lambda>rs. if length rs = k then Some (refuse (js ''Not Found''))
                       else Some (respond (blob (url (last rs))))),
      contentsApi = (\<lambda>rs. Some (respond listing)),
      refsApi = (\<lambda>rs. None),
      updateApi = (\<lambda>rs. None)\<rparr>"

text \<open>The request for a path of the sample repository, the signed-in browser after a
  list of requests, and the file the sample host's payload decodes to.\<close>

definition sampleRequest :: "jsstring \<Rightarrow> Request" where
  "sampleRequest p =
     apiRequest (js ''t0'') (contentsEndpoint (js ''o'') (js ''r'') p None) noOptions"

definition signedInAfter :: "Request list \<Rightarrow> World" where
  "signedInAfter rs = signedIn\<lparr>requests := rs\<rparr>"

definition sampleFile :: "jsstring \<Rightarrow> GitHubFile" where
  "sampleFile p = (blob (url (sampleRequest p)))\<lparr>content := Some (js ''hi'')\<rparr>"

section \<open>Evaluating the samples\<close>

lemmas sample_defs =
  signedOut_def signedIn_def setGitHubToken_def getGitHubToken_def rootEntry_def blob_def
  respond_def refuse_def isMissing_def sampleHost_def

lemmas string_defs =
  js_def startsWith_def endsWith_def includes'_def suffix_to_prefix sublist_code truthy_def

lemma signedOut_token: "getGitHubToken signedOut = None"
  by (simp add: signedOut_def getGitHubToken_def)

lemma signedIn_token: "getGitHubToken signedIn = Some (js ''t0'')"
  by (simp add: sample_defs)

lemma t0_not_empty: "js ''t0'' \<noteq> []"
  by (simp add: js_def)

lemma signedIn_requests: "requests signedIn = []"
  by (simp add: sample_defs)

lemma atob_empty: "atob [] = Inr []"
  by (simp add: atob_def stripPadding_def dropPad_def)

lemma atob_sample: "atob (js ''aGk='') = Inr (js ''hi'')"
  by (simp add: atob_def js_def isAsciiWhitespace_def stripPadding_def dropPad_def
      base64Index_def base64Alphabet_def padChar_def)

section \<open>Properties of the host API client\<close>

lemma truthy_None [simp]: "\<not> truthy None"
  by (simp add: truthy_def)

lemma truthy_Some [simp]: "truthy (Some s) = (s \<noteq> [])"
  by (simp add: truthy_def)

lemma getGitHubToken_requests [simp]:
  "getGitHubToken (w\<lparr>requests := rs\<rparr>) = getGitHubToken w"
  by (simp add: getGitHubToken_def)

lemma githubApi_no_token:
  "getGitHubToken w = None \<Longrightarrow>
   githubApi net endpoint options w = (Inl (Error (js ''No GitHub token found'')), w)"
  by (simp add: githubApi_def)

lemma githubApi_refused:
  assumes "getGitHubToken w = Some token" and "token \<noteq> []"
    and "net (requests w @ [apiRequest token endpoint options]) = Some r"
    and "\<not> ok r"
  shows "githubApi net endpoint options w =
    (Inl (Error (js ''GitHub API error: '' @ statusText r)),
     w\<lparr>requests := requests w @ [apiRequest token endpoint options]\<rparr>)"
  using assms by (simp add: githubApi_def fetch_def Let_def)

lemma githubApi_resolved:
  assumes "getGitHubToken w = Some token" and "token \<noteq> []"
    and "net (requests w @ [apiRequest token endpoint options]) = Some r"
    and "ok r" and "json r = Some v"
  shows "githubApi net endpoint options w =
    (Inr v, w\<lparr>requests := requests w @ [apiRequest token endpoint options]\<rparr>)"
  using assms by (simp add: githubApi_def fetch_def Let_def)

text \<open>
  Claim C2. With no credential stored, each of the seven operations of the client (user,
  repositories, branches, file read, directory listing, file write, branch creation)
  is rejected with the error "No GitHub token found" and leaves the state as it was: no
  request is added to the list of requests issued.
\<close>

theorem no_credential_no_request:
  assumes "getGitHubToken w = None"
  shows "getGitHubUser h w = (Inl (Error (js ''No GitHub token found'')), w)
       \<and> getGitHubRepos h w = (Inl (Error (js ''No GitHub token found'')), w)
       \<and> getRepoBranches h owner repo w = (Inl (Error (js ''No GitHub token found'')), w)
       \<and> getRepoFile h owner repo p branch w = (Inl (Error (js ''No GitHub token found'')), w)
       \<and> getRepoContents h owner repo p branch w
            = (Inl (Error (js ''No GitHub token found'')), w)
       \<and> updateRepoFile h owner repo p text' message s branch' w
            = (Inl (Error (js ''No GitHub token found'')), w)
       \<and> createBranch h owner repo newBranchName fromBranch w
            = (Inl (Error (js ''No GitHub token found'')), w)"
  using assms
  by (simp add: getGitHubUser_def getGitHubRepos_def getRepoBranches_def getRepoFile_def
      getRepoContents_def updateRepoFile_def createBranch_def githubApi_no_token)

theorem no_credential_no_request_witness:
  "getGitHubToken signedOut = None
   \<and> requests signedOut = []
   \<and> getGitHubUser (sampleHost [] []) signedOut
        = (Inl (Error (js ''No GitHub token found'')), signedOut)
   \<and> getGitHubRepos (sampleHost [] []) signedOut
        = (Inl (Error (js ''No GitHub token found'')), signedOut)
   \<and> getRepoBranches (sampleHost [] []) (js ''o'') (js ''r'') signedOut
        = (Inl (Error (js ''No GitHub token found'')), signedOut)
   \<and> getRepoFile (sampleHost [] []) (js ''o'') (js ''r'') (js ''main.tf'') None signedOut
        = (Inl (Error (js ''No GitHub token found'')), signedOut)
   \<and> getRepoContents (sampleHost [] []) (js ''o'') (js ''r'') [] None signedOut
        = (Inl (Error (js ''No GitHub token found'')), signedOut)
   \<and> updateRepoFile (sampleHost [] []) (js ''o'') (js ''r'') (js ''main.tf'') (js ''x'')
          (js ''m'') (js ''0a'') (js ''main'') signedOut
        = (Inl (Error (js ''No GitHub token found'')), signedOut)
   \<and> createBranch (sampleHost [] []) (js ''o'') (js ''r'') (js ''new'') (js ''main'') signedOut
        = (Inl (Error (js ''No GitHub token found'')), signedOut)"
  using no_credential_no_request[OF signedOut_token, where h = "sampleHost [] []"
      and owner = "js ''o''" and repo = "js ''r''" and p = "js ''main.tf''" and branch = None
      and text' = "js ''x''" and message = "js ''m''" and s = "js ''0a''"
      and branch' = "js ''main''" and newBranchName = "js ''new''" and fromBranch = "js ''main''"]
    no_credential_no_request[OF signedOut_token, where h = "sampleHost [] []"
      and owner = "js ''o''" and repo = "js ''r''" and p = "[]" and branch = None]
  by (simp add: signedOut_token) (simp add: signedOut_def)

text \<open>
  Claim C9. Branch creation issues two calls in sequence, the second depending on the
  first. The first is a GET (no method given) of
  \<^verbatim>\<open>/repos/{owner}/{repo}/git/refs/heads/{fromBranch}\<close> with the bearer token. When it
  is answered with a non-success status, the operation is rejected with the host
  error carrying the status text, and that request is the only one issued: the ref is
  never created. When it succeeds, the second request follows: a POST to
  \<^verbatim>\<open>/repos/{owner}/{repo}/git/refs\<close> whose body holds the ref
  \<^verbatim>\<open>refs/heads/{newBranchName}\<close> and, as sha, the hash \<^verbatim>\<open>object.sha\<close> of the first
  answer. A non-success answer to the second rejects with "Failed to create branch";
  a success resolves with the new branch name and the hash of the second answer.
\<close>

theorem createBranch_two_dependent_calls:
  assumes "getGitHubToken w = Some token" and "token \<noteq> []"
    and "lookup =
           \<lparr>url = js ''https://api.github.com'' @ js ''/repos/'' @ owner @ js ''/'' @ repo
                    @ js ''/git/refs/heads/'' @ fromBranch,
            init = \<lparr>http_method = None,
                    headers = [(js ''Authorization'', js ''Bearer '' @ token),
                               (js ''Accept'', js ''application/vnd.github.v3+json'')],
                    body = None\<rparr>\<rparr>"
    and "create = (\<lambda>hash.
           \<lparr>url = js ''https://api.github.com/repos/'' @ owner @ js ''/'' @ repo
                    @ js ''/git/refs'',
            init = \<lparr>http_method = Some (js ''POST''),
                    headers = [(js ''Authorization'', js ''Bearer '' @ token),
                               (js ''Accept'', js ''application/vnd.github.v3+json''),
                               (js ''Content-Type'', js ''application/json'')],
                    body = Some [(js ''ref'', js ''refs/heads/'' @ newBranchName),
                                 (js ''sha'', hash)]\<rparr>\<rparr>)"
    and "refsApi h (requests w @ [lookup]) = Some r"
  shows "(\<not> ok r \<longrightarrow>
            createBranch h owner repo newBranchName fromBranch w =
              (Inl (Error (js ''GitHub API error: '' @ statusText r)),
               w\<lparr>requests := requests w @ [lookup]\<rparr>))
       \<and> (\<forall>d. ok r \<and> json r = Some d \<longrightarrow>
            requests (snd (createBranch h owner repo newBranchName fromBranch w)) =
              requests w @ [lookup, create (GitObject.sha (object d))])
       \<and> (\<forall>d r2. ok r \<and> json r = Some d
              \<and> refsApi h (requests w @ [lookup, create (GitObject.sha (object d))]) = Some r2
              \<and> \<not> ok r2 \<longrightarrow>
            fst (createBranch h owner repo newBranchName fromBranch w) =
              Inl (Error (js ''Failed to create branch: '' @ statusText r2)))
       \<and> (\<forall>d r2 d2. ok r \<and> json r = Some d
              \<and> refsApi h (requests w @ [lookup, create (GitObject.sha (object d))]) = Some r2
              \<and> ok r2 \<and> json r2 = Some d2 \<longrightarrow>
            fst (createBranch h owner repo newBranchName fromBranch w) =
              Inr \<lparr>GitHubBranch.name = newBranchName,
                   commit = \<lparr>Commit.sha = GitObject.sha (object d2)\<rparr>\<rparr>)"
proof -
  have l: "lookup = apiRequest token (headRefEndpoint owner repo fromBranch) noOptions"
    by (simp add: assms(3) apiRequest_def headRefEndpoint_def noOptions_def)
  have c: "create hash = createRefRequest token owner repo newBranchName hash" for hash
    by (simp add: assms(4) createRefRequest_def js_def)
  note first = assms(5)[unfolded l]
  have refused: "createBranch h owner repo newBranchName fromBranch w =
          (Inl (Error (js ''GitHub API error: '' @ statusText r)),
           w\<lparr>requests := requests w @ [lookup]\<rparr>)" if "\<not> ok r"
    using githubApi_refused[where net = "refsApi h", OF assms(1,2) first that] assms(1,2)
    by (simp add: createBranch_def l)
  have resolved: "githubApi (refsApi h) (headRefEndpoint owner repo fromBranch) noOptions w =
          (Inr d, w\<lparr>requests := requests w @ [lookup]\<rparr>)" if "ok r" "json r = Some d" for d
    using githubApi_resolved[where net = "refsApi h" and v = d, OF assms(1,2) first that]
    by (simp add: l)
  show ?thesis
  proof (intro conjI impI allI)
    assume "\<not> ok r"
    then show "createBranch h owner repo newBranchName fromBranch w =
          (Inl (Error (js ''GitHub API error: '' @ statusText r)),
           w\<lparr>requests := requests w @ [lookup]\<rparr>)"
      by (rule refused)
  next
    fix d
    assume "ok r \<and> json r = Some d"
    with resolved[of d] assms(1,2)
    show "requests (snd (createBranch h owner repo newBranchName fromBranch w)) =
          requests w @ [lookup, create (GitObject.sha (object d))]"
      by (simp add: createBranch_def fetch_def Let_def c split: option.splits)
  next
    fix d r2
    assume "ok r \<and> json r = Some d
              \<and> refsApi h (requests w @ [lookup, create (GitObject.sha (object d))]) = Some r2
              \<and> \<not> ok r2"
    with resolved[of d] assms(1,2)
    show "fst (createBranch h owner repo newBranchName fromBranch w) =
              Inl (Error (js ''Failed to create branch: '' @ statusText r2))"
      by (simp add: createBranch_def fetch_def Let_def c)
  next
    fix d r2 d2
    assume "ok r \<and> json r = Some d
              \<and> refsApi h (requests w @ [lookup, create (GitObject.sha (object d))]) = Some r2
              \<and> ok r2 \<and> json r2 = Some d2"
    with resolved[of d] assms(1,2)
    show "fst (createBranch h owner repo newBranchName fromBranch w) =
              Inr \<lparr>GitHubBranch.name = newBranchName,
                   commit = \<lparr>Commit.sha = GitObject.sha (object d2)\<rparr>\<rparr>"
      by (simp add: createBranch_def fetch_def Let_def c)
  qed
qed

theorem createBranch_two_dependent_calls_witness:
  "createBranch (sampleHost [] [js ''/heads/gone'']) (js ''o'') (js ''r'') (js ''new'')
       (js ''gone'') signedIn
     = (Inl (Error (js ''GitHub API error: Not Found'')),
        signedIn\<lparr>requests :=
          [\<lparr>url = js ''https://api.github.com/repos/o/r/git/refs/heads/gone'',
            init = \<lparr>http_method = None,
                    headers = [(js ''Authorization'', js ''Bearer t0''),
                               (js ''Accept'', js ''application/vnd.github.v3+json'')],
                    body = None\<rparr>\<rparr>]\<rparr>)
   \<and> requests (snd (createBranch (sampleHost [] [js ''/heads/gone'']) (js ''o'') (js ''r'')
       (js ''new'') (js ''main'') signedIn))
     = [\<lparr>url = js ''https://api.github.com/repos/o/r/git/refs/heads/main'',
         init = \<lparr>http_method = None,
                 headers = [(js ''Authorization'', js ''Bearer t0''),
                            (js ''Accept'', js ''application/vnd.github.v3+json'')],
                 body = None\<rparr>\<rparr>,
        \<lparr>url = js ''https://api.github.com/repos/o/r/git/refs'',
         init = \<lparr>http_method = Some (js ''POST''),
                 headers = [(js ''Authorization'', js ''Bearer t0''),
                            (js ''Accept'', js ''application/vnd.github.v3+json''),
                            (js ''Content-Type'', js ''application/json'')],
                 body = Some [(js ''ref'', js ''refs/heads/new''), (js ''sha'', js ''c0de'')]\<rparr>\<rparr>]
   \<and> fst (createBranch (sampleHost [] [js ''/heads/gone'']) (js ''o'') (js ''r'')
       (js ''new'') (js ''main'') signedIn)
     = Inr \<lparr>GitHubBranch.name = js ''new'', commit = \<lparr>Commit.sha = js ''c0de''\<rparr>\<rparr>"
proof -
  let ?h = "sampleHost [] [js ''/heads/gone'']"
  let ?lookup = "\<lambda>from. \<lparr>url = js ''https://api.github.com'' @ js ''/repos/'' @ js ''o'' @ js ''/''
                    @ js ''r'' @ js ''/git/refs/heads/'' @ from,
            init = \<lparr>http_method = None,
                    headers = [(js ''Authorization'', js ''Bearer '' @ js ''t0''),
                               (js ''Accept'', js ''application/vnd.github.v3+json'')],
                    body = None\<rparr>\<rparr>"
  let ?create = "\<lambda>hash.
           \<lparr>url = js ''https://api.github.com/repos/'' @ js ''o'' @ js ''/'' @ js ''r''
                    @ js ''/git/refs'',
            init = \<lparr>http_method = Some (js ''POST''),
                    headers = [(js ''Authorization'', js ''Bearer '' @ js ''t0''),
                               (js ''Accept'', js ''application/vnd.github.v3+json''),
                               (js ''Content-Type'', js ''application/json'')],
                    body = Some [(js ''ref'', js ''refs/heads/'' @ js ''new''),
                                 (js ''sha'', hash)]\<rparr>\<rparr>"
  have gone: "refsApi ?h (requests signedIn @ [?lookup (js ''gone'')])
      = Some (refuse (js ''Not Found''))"
    by (simp add: sampleHost_def isMissing_def string_defs)
  have main: "refsApi ?h (requests signedIn @ [?lookup (js ''main'')])
      = Some (respond \<lparr>object = \<lparr>GitObject.sha = js ''c0de''\<rparr>\<rparr>)"
    by (simp add: sampleHost_def isMissing_def string_defs)
  have second: "refsApi ?h (requests signedIn @ [?lookup (js ''main''),
        ?create (GitObject.sha (object \<lparr>object = \<lparr>GitObject.sha = js ''c0de''\<rparr>\<rparr>))])
      = Some (respond \<lparr>object = \<lparr>GitObject.sha = js ''c0de''\<rparr>\<rparr>)"
    by (simp add: sampleHost_def isMissing_def string_defs)
  note t1 = createBranch_two_dependent_calls[OF signedIn_token t0_not_empty refl refl gone,
      of "js ''new''"]
  note t2 = createBranch_two_dependent_calls[OF signedIn_token t0_not_empty refl refl main,
      of "js ''new''"]
  from t1 have a: "createBranch ?h (js ''o'') (js ''r'') (js ''new'') (js ''gone'') signedIn
     = (Inl (Error (js ''GitHub API error: '' @ js ''Not Found'')),
        signedIn\<lparr>requests := requests signedIn @ [?lookup (js ''gone'')]\<rparr>)"
    by (simp add: refuse_def)
  from t2 have b: "requests (snd (createBranch ?h (js ''o'') (js ''r'') (js ''new'') (js ''main'')
        signedIn)) = requests signedIn @ [?lookup (js ''main''), ?create (js ''c0de'')]"
    by (simp add: respond_def)
  from t2 second have c: "fst (createBranch ?h (js ''o'') (js ''r'') (js ''new'') (js ''main'')
        signedIn) = Inr \<lparr>GitHubBranch.name = js ''new'', commit = \<lparr>Commit.sha = js ''c0de''\<rparr>\<rparr>"
    by (simp add: respond_def)
  show ?thesis
    unfolding a b c by (simp add: signedIn_requests js_def)
qed

text \<open>
  Claim C4. When the payload of a file read has encoding "base64" and a content field,
  the record that \<open>getRepoFile\<close> returns is the payload with its content replaced by
  the base64-decoding of that field: the decoding is done before the record is
  returned. (Where the field cannot be decoded no record is returned: the call is
  rejected.)
\<close>

theorem getRepoFile_decodes_base64:
  assumes "githubApi (fileApi h) (contentsEndpoint owner repo p branch) noOptions w
             = (Inr raw, w')"
    and "encoding raw = Some (js ''base64'')"
    and "content raw = Some c"
    and "getRepoFile h owner repo p branch w = (Inr file', w'')"
  shows "\<exists>decoded. atob c = Inr decoded \<and> content file' = Some decoded
           \<and> file' = raw\<lparr>content := Some decoded\<rparr>"
proof (cases "c = []")
  case True
  with assms show ?thesis
    by (auto simp: getRepoFile_def decodeContent_def atob_empty)
next
  case False
  with assms show ?thesis
    by (auto simp: getRepoFile_def decodeContent_def split: sum.splits)
qed

lemma sample_file_request:
  "githubApi (fileApi (sampleHost [] [])) (contentsEndpoint (js ''o'') (js ''r'') (js ''main.tf'') None)
     noOptions signedIn
   = (Inr (blob (js ''https://api.github.com/repos/o/r/contents/main.tf'')),
      signedIn\<lparr>requests := [apiRequest (js ''t0'')
        (contentsEndpoint (js ''o'') (js ''r'') (js ''main.tf'') None) noOptions]\<rparr>)"
proof -
  have "fileApi (sampleHost [] []) (requests signedIn @ [apiRequest (js ''t0'')
          (contentsEndpoint (js ''o'') (js ''r'') (js ''main.tf'') None) noOptions])
        = Some (respond (blob (js ''https://api.github.com/repos/o/r/contents/main.tf'')))"
    by (simp add: sampleHost_def isMissing_def apiRequest_def contentsEndpoint_def refQuery_def
        js_def)
  from githubApi_resolved[where net = "fileApi (sampleHost [] [])", OF signedIn_token t0_not_empty this]
  show ?thesis by (simp add: respond_def signedIn_requests)
qed

theorem getRepoFile_decodes_base64_witness:
  "encoding (blob (js ''https://api.github.com/repos/o/r/contents/main.tf'')) = Some (js ''base64'')
   \<and> content (blob (js ''https://api.github.com/repos/o/r/contents/main.tf'')) = Some (js ''aGk='')
   \<and> atob (js ''aGk='') = Inr (js ''hi'')
   \<and> fst (getRepoFile (sampleHost [] []) (js ''o'') (js ''r'') (js ''main.tf'') None signedIn)
       = Inr ((blob (js ''https://api.github.com/repos/o/r/contents/main.tf''))
               \<lparr>content := Some (js ''hi'')\<rparr>)"
proof -
  let ?raw = "blob (js ''https://api.github.com/repos/o/r/contents/main.tf'')"
  have enc: "encoding ?raw = Some (js ''base64'')" and con: "content ?raw = Some (js ''aGk='')"
    by (simp_all add: blob_def)
  have ret: "getRepoFile (sampleHost [] []) (js ''o'') (js ''r'') (js ''main.tf'') None signedIn
     = (Inr (?raw\<lparr>content := Some (js ''hi'')\<rparr>),
        signedIn\<lparr>requests := [apiRequest (js ''t0'')
          (contentsEndpoint (js ''o'') (js ''r'') (js ''main.tf'') None) noOptions]\<rparr>)"
    by (simp add: getRepoFile_def sample_file_request decodeContent_def enc con atob_sample)
      (simp add: js_def)
  from getRepoFile_decodes_base64[OF sample_file_request enc con ret] enc con ret
  show ?thesis by (simp add: atob_sample)
qed

text \<open>
  Claim C8 says that for any text supplied to a write, the content field of the
  outgoing body is the base64 encoding of the text. At a text with a character outside
  Latin-1 (here "a", a right arrow U+2192, "b"), for any host and any signed-in state,
  the code does not get that far: \<^verbatim>\<open>btoa\<close> throws while the arguments of \<^verbatim>\<open>fetch\<close>
  are built, so the write is rejected with \<open>InvalidCharacterError\<close> and no request,
  hence no body with the encoded content, leaves the client.
\<close>

theorem updateRepoFile_rejects_wide_text:
  "updateRepoFile h owner repo p (js ''a'' @ [0x2192] @ js ''b'') message s branch
       (setGitHubToken (js ''t0'') w)
     = (Inl InvalidCharacterError, setGitHubToken (js ''t0'') w)"
  by (simp add: updateRepoFile_def setGitHubToken_def getGitHubToken_def btoa_def js_def)

text \<open>
  For a text of code units up to 0xFF the write issues exactly one request, and the
  content field of its body is the base64 encoding of the text.
\<close>

theorem updateRepoFile_sends_base64:
  assumes "getGitHubToken w = Some token" and "token \<noteq> []"
    and "\<forall>c\<in>set text'. c \<le> 0xFF"
  shows "btoa text' = Inr (base64Encode (map unat text'))
       \<and> requests (snd (updateRepoFile h owner repo p text' message s branch w)) =
           requests w @
             [updateRequest token owner repo p (base64Encode (map unat text')) message s branch]
       \<and> map_of (the (body (init
             (updateRequest token owner repo p (base64Encode (map unat text')) message s branch))))
             (js ''content'') = Some (base64Encode (map unat text'))"
proof -
  have "\<not> list_ex (\<lambda>c. 0xFF < c) text'"
    using assms(3) by (auto simp: list_ex_iff)
  then have b: "btoa text' = Inr (base64Encode (map unat text'))"
    by (simp add: btoa_def)
  have c: "map_of (the (body (init
             (updateRequest token owner repo p (base64Encode (map unat text')) message s branch))))
             (js ''content'') = Some (base64Encode (map unat text'))"
    by (simp add: updateRequest_def js_def)
  from assms(1,2) b c show ?thesis
    by (simp add: updateRepoFile_def fetch_def Let_def split: option.splits)
qed

theorem updateRepoFile_sends_base64_witness:
  "btoa (js ''hi'') = Inr (js ''aGk='')
   \<and> requests (snd (updateRepoFile (sampleHost [] []) (js ''o'') (js ''r'') (js ''main.tf'')
        (js ''hi'') (js ''m'') (js ''0a'') (js ''main'') signedIn))
      = [updateRequest (js ''t0'') (js ''o'') (js ''r'') (js ''main.tf'') (js ''aGk='') (js ''m'')
           (js ''0a'') (js ''main'')]"
proof -
  have lat: "\<forall>c\<in>set (js ''hi''). c \<le> 0xFF"
    by (simp add: js_def)
  have enc: "base64Encode (map unat (js ''hi'')) = js ''aGk=''"
    by (simp add: js_def base64Char_def base64Alphabet_def padChar_def)
  from updateRepoFile_sends_base64[OF signedIn_token t0_not_empty lat,
      where h = "sampleHost [] []" and owner = "js ''o''" and repo = "js ''r''"
        and p = "js ''main.tf''" and message = "js ''m''" and s = "js ''0a''"
        and branch = "js ''main''"]
  show ?thesis by (simp add: enc signedIn_requests)
qed

section \<open>Properties of the diff renderer\<close>

lemma length_renderDiff:
  "length (renderDiff oldContent newContent) =
     max (length (jsSplit newline oldContent)) (length (jsSplit newline newContent))"
  by (simp add: renderDiff_def Let_def)

lemma changed_renderDiff:
  assumes "i < max (length (jsSplit newline oldContent)) (length (jsSplit newline newContent))"
  shows "changed (renderDiff oldContent newContent ! i) =
     (arrayGet (jsSplit newline oldContent) i \<noteq> arrayGet (jsSplit newline newContent) i)"
  using assms by (simp add: renderDiff_def Let_def)

text \<open>
  Claim C3, as stated, at the old text "a" and the new text "a" followed by a line
  break: the texts have one and two lines, row 1 pairs the missing old line with the
  empty new line, and the code marks it changed (\<^verbatim>\<open>undefined !== ''\<close>), although the
  old line padded to an empty line does not differ from the new line.
\<close>

theorem renderDiff_padding_counterexample:
  "changed (renderDiff (js ''a'') (js ''a'' @ [newline]) ! 1)
   \<and> \<not> paddedChanged (js ''a'') (js ''a'' @ [newline]) 1"
  by (simp add: renderDiff_def paddedChanged_def paddedLine_def arrayGet_def js_def newline_def
      Let_def)

text \<open>
  Claim C3, amended. The renderer is a function of the two texts alone. It splits both
  at the line breaks and produces as many rows as the longer one has lines. Row \<open>i\<close> is
  marked changed exactly when one of the texts has no line \<open>i\<close> or the two lines at \<open>i\<close>
  differ: a missing line differs from every line, the empty line included, and is only
  displayed as a blank. On the old lines "a", "b" and the new lines "a", "c", "d" there
  are three rows: row 0 unchanged, rows 1 and 2 changed, the old cell of row 2 blank.
\<close>

theorem renderDiff_rows:
  "length (renderDiff oldContent newContent) =
     max (length (jsSplit newline oldContent)) (length (jsSplit newline newContent))
   \<and> (\<forall>i < max (length (jsSplit newline oldContent)) (length (jsSplit newline newContent)).
        changed (renderDiff oldContent newContent ! i) =
          (if i < length (jsSplit newline oldContent) \<and> i < length (jsSplit newline newContent)
           then jsSplit newline oldContent ! i \<noteq> jsSplit newline newContent ! i
           else True))
   \<and> renderDiff (js ''a'' @ [newline] @ js ''b'') (js ''a'' @ [newline] @ js ''c'' @ [newline] @ js ''d'')
       = [\<lparr>oldCell = js ''a'', newCell = js ''a'', changed = False\<rparr>,
          \<lparr>oldCell = js ''b'', newCell = js ''c'', changed = True\<rparr>,
          \<lparr>oldCell = js '' '', newCell = js ''d'', changed = True\<rparr>]"
proof (intro conjI allI impI)
  show "length (renderDiff oldContent newContent) =
     max (length (jsSplit newline oldContent)) (length (jsSplit newline newContent))"
    by (rule length_renderDiff)
next
  fix i
  assume "i < max (length (jsSplit newline oldContent)) (length (jsSplit newline newContent))"
  then show "changed (renderDiff oldContent newContent ! i) =
          (if i < length (jsSplit newline oldContent) \<and> i < length (jsSplit newline newContent)
           then jsSplit newline oldContent ! i \<noteq> jsSplit newline newContent ! i
           else True)"
    by (auto simp: changed_renderDiff arrayGet_def)
next
  show "renderDiff (js ''a'' @ [newline] @ js ''b'') (js ''a'' @ [newline] @ js ''c'' @ [newline] @ js ''d'')
       = [\<lparr>oldCell = js ''a'', newCell = js ''a'', changed = False\<rparr>,
          \<lparr>oldCell = js ''b'', newCell = js ''c'', changed = True\<rparr>,
          \<lparr>oldCell = js '' '', newCell = js ''d'', changed = True\<rparr>]"
    by (simp add: renderDiff_def arrayGet_def cellText_def js_def newline_def Let_def
        upt_conv_Cons)
qed

theorem renderDiff_rows_witness:
  "length (renderDiff (js ''a'') (js ''a'' @ [newline])) = 2
   \<and> \<not> changed (renderDiff (js ''a'') (js ''a'' @ [newline]) ! 0)
   \<and> changed (renderDiff (js ''a'') (js ''a'' @ [newline]) ! 1)"
proof -
  have l: "jsSplit newline (js ''a'') = [js ''a'']"
    and r: "jsSplit newline (js ''a'' @ [newline]) = [js ''a'', []]"
    by (simp_all add: js_def newline_def)
  from renderDiff_rows[of "js ''a''" "js ''a'' @ [newline]"]
  have "length (renderDiff (js ''a'') (js ''a'' @ [newline])) = 2"
    and "\<forall>i<2. changed (renderDiff (js ''a'') (js ''a'' @ [newline]) ! i) =
           (if i < 1 then [js ''a''] ! i \<noteq> [js ''a'', []] ! i else True)"
    unfolding l r by simp_all
  then show ?thesis by simp
qed

section \<open>Properties of the scanner\<close>

lemma andThen_Some [simp]: "andThen (Some e, a, w) f = (Some e, a, w)"
  by (simp add: andThen_def)

lemma andThen_None [simp]: "andThen (None, a, w) f = f a w"
  by (simp add: andThen_def)

lemma andThen_completes:
  assumes "andThen s f = (None, a', w')"
  obtains a1 w1 where "s = (None, a1, w1)" and "f a1 w1 = (None, a', w')"
  using assms by (cases s) (auto simp: andThen_def split: option.splits)

lemma andThen_cases:
  assumes "andThen s f = (res, a', w')"
  shows "s = (res, a', w') \<and> res \<noteq> None \<or> (\<exists>a1 w1. s = (None, a1, w1) \<and> f a1 w1 = (res, a', w'))"
  using assms by (cases s) (auto simp: andThen_def split: option.splits)

lemma scanEntries_append:
  "scanEntries h owner repo branch (xs @ ys) a w =
     andThen (scanEntries h owner repo branch xs a w) (scanEntries h owner repo branch ys)"
proof (induction xs arbitrary: a w)
  case Nil
  show ?case by simp
next
  case (Cons x xs)
  show ?case
    by (cases "analyzeEntry h owner repo branch x a w") (auto simp: Cons.IH split: option.splits)
qed

subsection \<open>A check that completes\<close>

lemma checkDockerCompose_completes:
  assumes "checkDockerCompose h owner repo branch entry a w = (None, a', w')"
  shows "hasDockerCompose a' = (hasDockerCompose a \<or> matchesDockerCompose (name entry))"
    and "hasDockerfile a' = hasDockerfile a" and "hasTerraform a' = hasTerraform a"
    and "hasKubernetes a' = hasKubernetes a" and "dockerfiles a' = dockerfiles a"
    and "terraformFiles a' = terraformFiles a" and "kubernetesFiles a' = kubernetesFiles a"
  using assms by (auto simp: checkDockerCompose_def split: if_splits prod.splits sum.splits)

lemma checkDockerfile_completes:
  assumes "checkDockerfile h owner repo branch entry a w = (None, a', w')"
  shows "hasDockerCompose a' = hasDockerCompose a"
    and "hasDockerfile a' = (hasDockerfile a \<or> isDockerfile (name entry))"
    and "hasTerraform a' = hasTerraform a" and "hasKubernetes a' = hasKubernetes a"
    and "length (dockerfiles a') =
           length (dockerfiles a) + (if isDockerfile (name entry) then 1 else 0)"
    and "terraformFiles a' = terraformFiles a" and "kubernetesFiles a' = kubernetesFiles a"
  using assms by (auto simp: checkDockerfile_def split: if_splits prod.splits sum.splits)

lemma checkTerraform_completes:
  assumes "checkTerraform h owner repo branch entry a w = (None, a', w')"
  shows "hasDockerCompose a' = hasDockerCompose a" and "hasDockerfile a' = hasDockerfile a"
    and "hasTerraform a' = (hasTerraform a \<or> isTerraform (name entry))"
    and "hasKubernetes a' = hasKubernetes a"
    and "dockerfiles a' = dockerfiles a"
    and "length (terraformFiles a') =
           length (terraformFiles a) + (if isTerraform (name entry) then 1 else 0)"
    and "kubernetesFiles a' = kubernetesFiles a"
  using assms by (auto simp: checkTerraform_def split: if_splits prod.splits sum.splits)

lemma checkKubernetes_completes:
  assumes "checkKubernetes h owner repo branch entry a w = (None, a', w')"
  shows "hasDockerCompose a' = hasDockerCompose a" and "hasDockerfile a' = hasDockerfile a"
    and "hasTerraform a' = hasTerraform a"
    and "hasKubernetes a' = (hasKubernetes a \<or> isKubernetes (name entry))"
    and "dockerfiles a' = dockerfiles a" and "terraformFiles a' = terraformFiles a"
    and "length (kubernetesFiles a') = length (kubernetesFiles a) +
           (if isKubernetes (name entry) \<and> type entry = Some (js ''file'') then 1 else 0)"
  using assms by (auto simp: checkKubernetes_def split: if_splits prod.splits sum.splits)

lemma analyzeEntry_completes:
  assumes "analyzeEntry h owner repo branch entry a w = (None, a', w')"
  shows "hasDockerCompose a' = (hasDockerCompose a \<or> matchesDockerCompose (name entry))"
    and "hasDockerfile a' = (hasDockerfile a \<or> isDockerfile (name entry))"
    and "hasTerraform a' = (hasTerraform a \<or> isTerraform (name entry))"
    and "hasKubernetes a' = (hasKubernetes a \<or> isKubernetes (name entry))"
    and "length (dockerfiles a') =
           length (dockerfiles a) + (if isDockerfile (name entry) then 1 else 0)"
    and "length (terraformFiles a') =
           length (terraformFiles a) + (if isTerraform (name entry) then 1 else 0)"
    and "length (kubernetesFiles a') = length (kubernetesFiles a) +
           (if isKubernetes (name entry) \<and> type entry = Some (js ''file'') then 1 else 0)"
proof -
  from assms obtain a3 w3 where
    s3: "andThen (andThen (checkDockerCompose h owner repo branch entry a w)
           (checkDockerfile h owner repo branch entry)) (checkTerraform h owner repo branch entry)
         = (None, a3, w3)"
    and c4: "checkKubernetes h owner repo branch entry a3 w3 = (None, a', w')"
    unfolding analyzeEntry_def by (rule andThen_completes)
  from s3 obtain a2 w2 where
    s2: "andThen (checkDockerCompose h owner repo branch entry a w)
           (checkDockerfile h owner repo branch entry) = (None, a2, w2)"
    and c3: "checkTerraform h owner repo branch entry a2 w2 = (None, a3, w3)"
    by (rule andThen_completes)
  from s2 obtain a1 w1 where
    c1: "checkDockerCompose h owner repo branch entry a w = (None, a1, w1)"
    and c2: "checkDockerfile h owner repo branch entry a1 w1 = (None, a2, w2)"
    by (rule andThen_completes)
  note f1 = checkDockerCompose_completes[OF c1] and f2 = checkDockerfile_completes[OF c2]
    and f3 = checkTerraform_completes[OF c3] and f4 = checkKubernetes_completes[OF c4]
  show "hasDockerCompose a' = (hasDockerCompose a \<or> matchesDockerCompose (name entry))"
    using f1(1) f2(1) f3(1) f4(1) by simp
  show "hasDockerfile a' = (hasDockerfile a \<or> isDockerfile (name entry))"
    using f1(2) f2(2) f3(2) f4(2) by simp
  show "hasTerraform a' = (hasTerraform a \<or> isTerraform (name entry))"
    using f1(3) f2(3) f3(3) f4(3) by simp
  show "hasKubernetes a' = (hasKubernetes a \<or> isKubernetes (name entry))"
    using f1(4) f2(4) f3(4) f4(4) by simp
  show "length (dockerfiles a') =
          length (dockerfiles a) + (if isDockerfile (name entry) then 1 else 0)"
    using f1(5) f2(5) f3(5) f4(5) by simp
  show "length (terraformFiles a') =
          length (terraformFiles a) + (if isTerraform (name entry) then 1 else 0)"
    using f1(6) f2(6) f3(6) f4(6) by simp
  show "length (kubernetesFiles a') = length (kubernetesFiles a) +
           (if isKubernetes (name entry) \<and> type entry = Some (js ''file'') then 1 else 0)"
    using f1(7) f2(7) f3(7) f4(7) by simp
qed

lemma scanEntries_completes:
  assumes "scanEntries h owner repo branch entries a w = (None, a', w')"
  shows "hasDockerCompose a' =
           (hasDockerCompose a \<or> (\<exists>f\<in>set entries. matchesDockerCompose (name f)))
    \<and> hasDockerfile a' = (hasDockerfile a \<or> (\<exists>f\<in>set entries. isDockerfile (name f)))
    \<and> hasTerraform a' = (hasTerraform a \<or> (\<exists>f\<in>set entries. isTerraform (name f)))
    \<and> hasKubernetes a' = (hasKubernetes a \<or> (\<exists>f\<in>set entries. isKubernetes (name f)))
    \<and> length (dockerfiles a') =
        length (dockerfiles a) + length (filter (\<lambda>f. isDockerfile (name f)) entries)
    \<and> length (terraformFiles a') =
        length (terraformFiles a) + length (filter (\<lambda>f. isTerraform (name f)) entries)
    \<and> length (kubernetesFiles a') = length (kubernetesFiles a) +
        length (filter (\<lambda>f. isKubernetes (name f) \<and> type f = Some (js ''file'')) entries)"
  using assms
proof (induction entries arbitrary: a w)
  case Nil
  then show ?case by simp
next
  case (Cons entry rest)
  from Cons.prems obtain a1 w1 where
    e: "analyzeEntry h owner repo branch entry a w = (None, a1, w1)"
    and r: "scanEntries h owner repo branch rest a1 w1 = (None, a', w')"
    by (auto split: prod.splits option.splits)
  note step = analyzeEntry_completes[OF e] and ih = Cons.IH[OF r]
  show ?case using step ih by auto
qed

lemma emptyAnalysis_fields [simp]:
  "hasDockerCompose emptyAnalysis = False" "hasDockerfile emptyAnalysis = False"
  "hasTerraform emptyAnalysis = False" "hasKubernetes emptyAnalysis = False"
  "dockerComposeFile emptyAnalysis = None" "dockerfiles emptyAnalysis = []"
  "terraformFiles emptyAnalysis = []" "kubernetesFiles emptyAnalysis = []"
  by (simp_all add: emptyAnalysis_def)

lemma analyzeRepository_completes:
  assumes "getRepoContents h owner repo [] branch w = (Inr entries, w0)"
    and "scanEntries h owner repo branch entries emptyAnalysis w0 = (None, a, w1)"
  shows "analyzeRepository h owner repo branch w = (Inr a, w1)"
  using assms by (simp add: analyzeRepository_def)

subsection \<open>The names the rules accept\<close>

lemma matchesDockerCompose_iff:
  "matchesDockerCompose n = (n = js ''docker-compose.yml'' \<or> n = js ''docker-compose.yaml'')"
  by (simp add: matchesDockerCompose_def js_def)

lemma isDockerfile_not_compose: "isDockerfile n \<Longrightarrow> \<not> matchesDockerCompose n"
  by (auto simp: matchesDockerCompose_iff isDockerfile_def startsWith_def js_def)

lemma isTerraform_not_compose: "isTerraform n \<Longrightarrow> \<not> matchesDockerCompose n"
  by (auto simp: matchesDockerCompose_iff isTerraform_def endsWith_def js_def suffix_to_prefix)

subsection \<open>A fetch that fails\<close>

lemma checkDockerCompose_no_match:
  "\<not> matchesDockerCompose (name entry) \<Longrightarrow>
   checkDockerCompose h owner repo branch entry a w = (None, a, w)"
  by (simp add: checkDockerCompose_def)

lemma checkDockerfile_no_match:
  "\<not> isDockerfile (name entry) \<Longrightarrow>
   checkDockerfile h owner repo branch entry a w = (None, a, w)"
  by (simp add: checkDockerfile_def)

lemma checkTerraform_no_match:
  "\<not> isTerraform (name entry) \<Longrightarrow>
   checkTerraform h owner repo branch entry a w = (None, a, w)"
  by (simp add: checkTerraform_def)

lemma analyzeEntry_compose_fetch_fails:
  assumes "matchesDockerCompose (name entry)"
    and "getRepoFile h owner repo (path entry) branch w = (Inl e, w')"
  shows "analyzeEntry h owner repo branch entry a w = (Some e, a\<lparr>hasDockerCompose := True\<rparr>, w')"
  using assms by (simp add: analyzeEntry_def checkDockerCompose_def)

lemma analyzeEntry_dockerfile_fetch_fails:
  assumes "isDockerfile (name entry)"
    and "getRepoFile h owner repo (path entry) branch w = (Inl e, w')"
  shows "analyzeEntry h owner repo branch entry a w = (Some e, a\<lparr>hasDockerfile := True\<rparr>, w')"
  using assms isDockerfile_not_compose[OF assms(1)]
  by (simp add: analyzeEntry_def checkDockerCompose_no_match checkDockerfile_def)

lemma analyzeEntry_terraform_fetch_fails:
  assumes "isTerraform (name entry)" and "\<not> isDockerfile (name entry)"
    and "getRepoFile h owner repo (path entry) branch w = (Inl e, w')"
  shows "analyzeEntry h owner repo branch entry a w = (Some e, a\<lparr>hasTerraform := True\<rparr>, w')"
  using assms isTerraform_not_compose[OF assms(1)]
  by (simp add: analyzeEntry_def checkDockerCompose_no_match checkDockerfile_no_match
      checkTerraform_def)

lemma analyzeEntry_kubernetes_fetch_fails:
  assumes "isKubernetes (name entry)" and "type entry = Some (js ''file'')"
    and "\<not> matchesDockerCompose (name entry)" and "\<not> isDockerfile (name entry)"
    and "\<not> isTerraform (name entry)"
    and "getRepoFile h owner repo (path entry) branch w = (Inl e, w')"
  shows "analyzeEntry h owner repo branch entry a w = (Some e, a\<lparr>hasKubernetes := True\<rparr>, w')"
  using assms
  by (simp add: analyzeEntry_def checkDockerCompose_no_match checkDockerfile_no_match
      checkTerraform_no_match checkKubernetes_def)

text \<open>Nothing but a file fetch throws in the body of the loop.\<close>

lemma check_throws_from_fetch:
  "checkDockerCompose h owner repo branch entry a w = (Some e, a', w') \<Longrightarrow>
     getRepoFile h owner repo (path entry) branch w = (Inl e, w')"
  "checkDockerfile h owner repo branch entry a w = (Some e, a', w') \<Longrightarrow>
     getRepoFile h owner repo (path entry) branch w = (Inl e, w')"
  "checkTerraform h owner repo branch entry a w = (Some e, a', w') \<Longrightarrow>
     getRepoFile h owner repo (path entry) branch w = (Inl e, w')"
  "checkKubernetes h owner repo branch entry a w = (Some e, a', w') \<Longrightarrow>
     getRepoFile h owner repo (path entry) branch w = (Inl e, w')"
  by (auto simp: checkDockerCompose_def checkDockerfile_def checkTerraform_def
      checkKubernetes_def split: if_splits prod.splits sum.splits)

lemma analyzeEntry_throws_from_fetch:
  assumes "analyzeEntry h owner repo branch entry a w = (Some e, a', w')"
  shows "\<exists>w1. getRepoFile h owner repo (path entry) branch w1 = (Inl e, w')"
proof -
  from andThen_cases[OF assms[unfolded analyzeEntry_def]]
  consider (k) a3 w3 where "checkKubernetes h owner repo branch entry a3 w3 = (Some e, a', w')"
    | (r) "andThen (andThen (checkDockerCompose h owner repo branch entry a w)
           (checkDockerfile h owner repo branch entry)) (checkTerraform h owner repo branch entry)
         = (Some e, a', w')"
    by auto
  then show ?thesis
  proof cases
    case k
    then show ?thesis by (blast dest: check_throws_from_fetch)
  next
    case r
    from andThen_cases[OF r]
    consider (t) a2 w2 where "checkTerraform h owner repo branch entry a2 w2 = (Some e, a', w')"
      | (r2) "andThen (checkDockerCompose h owner repo branch entry a w)
           (checkDockerfile h owner repo branch entry) = (Some e, a', w')"
      by auto
    then show ?thesis
    proof cases
      case t
      then show ?thesis by (blast dest: check_throws_from_fetch)
    next
      case r2
      from andThen_cases[OF r2]
      consider (d) a1 w1 where "checkDockerfile h owner repo branch entry a1 w1 = (Some e, a', w')"
        | (c) "checkDockerCompose h owner repo branch entry a w = (Some e, a', w')"
        by auto
      then show ?thesis by cases (blast dest: check_throws_from_fetch)+
    qed
  qed
qed

lemma scan_stops_at_failure:
  assumes "scanEntries h owner repo branch before a w = (None, a1, w1)"
    and "analyzeEntry h owner repo branch entry a1 w1 = (Some e, a2, w2)"
  shows "scanEntries h owner repo branch (before @ entry # after) a w = (Some e, a2, w2)"
  using assms by (simp add: scanEntries_append)

subsection \<open>A rule and its fetch\<close>


lemma checkDockerfile_step:
  assumes "isDockerfile (name entry) \<longrightarrow>
             getRepoFile h owner repo (path entry) branch w = (Inr f, w')"
    and "\<not> isDockerfile (name entry) \<longrightarrow> w' = w"
  shows "checkDockerfile h owner repo branch entry a w =
           (None,
            a\<lparr>hasDockerfile := hasDockerfile a \<or> isDockerfile (name entry),
              dockerfiles := dockerfiles a @ (if isDockerfile (name entry) then [f] else [])\<rparr>,
            w')"
  using assms by (simp add: checkDockerfile_def)

lemma checkTerraform_step:
  assumes "isTerraform (name entry) \<longrightarrow>
             getRepoFile h owner repo (path entry) branch w = (Inr f, w')"
    and "\<not> isTerraform (name entry) \<longrightarrow> w' = w"
  shows "checkTerraform h owner repo branch entry a w =
           (None,
            a\<lparr>hasTerraform := hasTerraform a \<or> isTerraform (name entry),
              terraformFiles := terraformFiles a @ (if isTerraform (name entry) then [f] else [])\<rparr>,
            w')"
  using assms by (simp add: checkTerraform_def)

lemma checkKubernetes_step:
  assumes "isKubernetes (name entry) \<and> type entry = Some (js ''file'') \<longrightarrow>
             getRepoFile h owner repo (path entry) branch w = (Inr f, w')"
    and "\<not> (isKubernetes (name entry) \<and> type entry = Some (js ''file'')) \<longrightarrow> w' = w"
  shows "checkKubernetes h owner repo branch entry a w =
           (None,
            a\<lparr>hasKubernetes := hasKubernetes a \<or> isKubernetes (name entry),
              kubernetesFiles := kubernetesFiles a @
                (if isKubernetes (name entry) \<and> type entry = Some (js ''file'') then [f] else [])\<rparr>,
            w')"
  using assms by (auto simp: checkKubernetes_def)

lemma checkDockerCompose_step:
  assumes "matchesDockerCompose (name entry) \<longrightarrow>
             getRepoFile h owner repo (path entry) branch w = (Inr f, w')"
    and "\<not> matchesDockerCompose (name entry) \<longrightarrow> w' = w"
  shows "checkDockerCompose h owner repo branch entry a w =
           (None,
            a\<lparr>hasDockerCompose := hasDockerCompose a \<or> matchesDockerCompose (name entry),
              dockerComposeFile :=
                (if matchesDockerCompose (name entry) then Some f else dockerComposeFile a)\<rparr>,
            w')"
  using assms by (simp add: checkDockerCompose_def)

lemma checkTerraform_failed:
  assumes "isTerraform (name entry)"
    and "getRepoFile h owner repo (path entry) branch w = (Inl e, w')"
  shows "checkTerraform h owner repo branch entry a w = (Some e, a\<lparr>hasTerraform := True\<rparr>, w')"
  using assms by (simp add: checkTerraform_def)

lemma checkKubernetes_failed:
  assumes "isKubernetes (name entry)" and "type entry = Some (js ''file'')"
    and "getRepoFile h owner repo (path entry) branch w = (Inl e, w')"
  shows "checkKubernetes h owner repo branch entry a w = (Some e, a\<lparr>hasKubernetes := True\<rparr>, w')"
  using assms by (simp add: checkKubernetes_def)

lemma isKubernetes_not_compose: "isKubernetes n \<Longrightarrow> \<not> matchesDockerCompose n"
  by (auto simp: matchesDockerCompose_iff isKubernetes_def string_defs)


text \<open>What processing an entry leaves when every fetch it triggers succeeds: the four
  rules in turn, each fetching at the state the one before left.\<close>

lemma analyzeEntry_all_fetched:
  assumes "matchesDockerCompose (name entry) \<longrightarrow>
             getRepoFile h owner repo (path entry) branch w1 = (Inr fC, wC)"
    and "\<not> matchesDockerCompose (name entry) \<longrightarrow> wC = w1"
    and "isDockerfile (name entry) \<longrightarrow>
             getRepoFile h owner repo (path entry) branch wC = (Inr fD, wD)"
    and "\<not> isDockerfile (name entry) \<longrightarrow> wD = wC"
    and "isTerraform (name entry) \<longrightarrow>
             getRepoFile h owner repo (path entry) branch wD = (Inr fT, wT)"
    and "\<not> isTerraform (name entry) \<longrightarrow> wT = wD"
    and "isKubernetes (name entry) \<and> type entry = Some (js ''file'') \<longrightarrow>
             getRepoFile h owner repo (path entry) branch wT = (Inr fK, wK)"
    and "\<not> (isKubernetes (name entry) \<and> type entry = Some (js ''file'')) \<longrightarrow> wK = wT"
  shows "analyzeEntry h owner repo branch entry a1 w1 =
     (None,
      a1\<lparr>hasDockerCompose := hasDockerCompose a1 \<or> matchesDockerCompose (name entry),
         dockerComposeFile :=
           (if matchesDockerCompose (name entry) then Some fC else dockerComposeFile a1),
         hasDockerfile := hasDockerfile a1 \<or> isDockerfile (name entry),
         dockerfiles := dockerfiles a1 @ (if isDockerfile (name entry) then [fD] else []),
         hasTerraform := hasTerraform a1 \<or> isTerraform (name entry),
         terraformFiles := terraformFiles a1 @ (if isTerraform (name entry) then [fT] else []),
         hasKubernetes := hasKubernetes a1 \<or> isKubernetes (name entry),
         kubernetesFiles := kubernetesFiles a1 @
           (if isKubernetes (name entry) \<and> type entry = Some (js ''file'') then [fK] else [])\<rparr>,
      wK)"
  unfolding analyzeEntry_def
  by (simp add: checkDockerCompose_step[OF assms(1,2)] checkDockerfile_step[OF assms(3,4)]
      checkTerraform_step[OF assms(5,6)] checkKubernetes_step[OF assms(7,8)])

subsection \<open>What later rules and entries keep\<close>

lemma checks_grow:
  "checkDockerCompose h owner repo branch entry a w = (res, a', w') \<Longrightarrow>
     (hasDockerCompose a \<longrightarrow> hasDockerCompose a') \<and> hasDockerfile a' = hasDockerfile a
     \<and> hasTerraform a' = hasTerraform a \<and> hasKubernetes a' = hasKubernetes a
     \<and> dockerfiles a' = dockerfiles a \<and> terraformFiles a' = terraformFiles a
     \<and> kubernetesFiles a' = kubernetesFiles a"
  "checkDockerfile h owner repo branch entry a w = (res, a', w') \<Longrightarrow>
     hasDockerCompose a' = hasDockerCompose a \<and> (hasDockerfile a \<longrightarrow> hasDockerfile a')
     \<and> hasTerraform a' = hasTerraform a \<and> hasKubernetes a' = hasKubernetes a
     \<and> prefix (dockerfiles a) (dockerfiles a') \<and> terraformFiles a' = terraformFiles a
     \<and> kubernetesFiles a' = kubernetesFiles a"
  "checkTerraform h owner repo branch entry a w = (res, a', w') \<Longrightarrow>
     hasDockerCompose a' = hasDockerCompose a \<and> hasDockerfile a' = hasDockerfile a
     \<and> (hasTerraform a \<longrightarrow> hasTerraform a') \<and> hasKubernetes a' = hasKubernetes a
     \<and> dockerfiles a' = dockerfiles a \<and> prefix (terraformFiles a) (terraformFiles a')
     \<and> kubernetesFiles a' = kubernetesFiles a"
  "checkKubernetes h owner repo branch entry a w = (res, a', w') \<Longrightarrow>
     hasDockerCompose a' = hasDockerCompose a \<and> hasDockerfile a' = hasDockerfile a
     \<and> hasTerraform a' = hasTerraform a \<and> (hasKubernetes a \<longrightarrow> hasKubernetes a')
     \<and> dockerfiles a' = dockerfiles a \<and> terraformFiles a' = terraformFiles a
     \<and> prefix (kubernetesFiles a) (kubernetesFiles a')"
  by (auto simp: checkDockerCompose_def checkDockerfile_def checkTerraform_def
      checkKubernetes_def split: if_splits prod.splits sum.splits)

lemma analyzeEntry_grows:
  assumes "analyzeEntry h owner repo branch entry a w = (res, a', w')"
  shows "(hasDockerCompose a \<longrightarrow> hasDockerCompose a') \<and> (hasDockerfile a \<longrightarrow> hasDockerfile a')
     \<and> (hasTerraform a \<longrightarrow> hasTerraform a') \<and> (hasKubernetes a \<longrightarrow> hasKubernetes a')
     \<and> prefix (dockerfiles a) (dockerfiles a') \<and> prefix (terraformFiles a) (terraformFiles a')
     \<and> prefix (kubernetesFiles a) (kubernetesFiles a')"
proof -
  obtain r1 a1 w1 where c1: "checkDockerCompose h owner repo branch entry a w = (r1, a1, w1)"
    by (cases "checkDockerCompose h owner repo branch entry a w") auto
  note g1 = checks_grow(1)[OF c1]
  show ?thesis
  proof (cases r1)
    case (Some e)
    with assms c1 have "a' = a1" by (simp add: analyzeEntry_def)
    with g1 show ?thesis by simp
  next
    case None
    obtain r2 a2 w2 where c2: "checkDockerfile h owner repo branch entry a1 w1 = (r2, a2, w2)"
      by (cases "checkDockerfile h owner repo branch entry a1 w1") auto
    note g2 = checks_grow(2)[OF c2]
    show ?thesis
    proof (cases r2)
      case (Some e)
      with assms c1 c2 None have "a' = a2" by (simp add: analyzeEntry_def)
      with g1 g2 show ?thesis by simp
    next
      case None2: None
      obtain r3 a3 w3 where c3: "checkTerraform h owner repo branch entry a2 w2 = (r3, a3, w3)"
        by (cases "checkTerraform h owner repo branch entry a2 w2") auto
      note g3 = checks_grow(3)[OF c3]
      show ?thesis
      proof (cases r3)
        case (Some e)
        with assms c1 c2 c3 None None2 have "a' = a3" by (simp add: analyzeEntry_def)
        with g1 g2 g3 show ?thesis by simp
      next
        case None3: None
        with assms c1 c2 c3 None None2
        have c4: "checkKubernetes h owner repo branch entry a3 w3 = (res, a', w')"
          by (simp add: analyzeEntry_def)
        note g4 = checks_grow(4)[OF c4]
        from g1 g2 g3 g4 show ?thesis by simp
      qed
    qed
  qed
qed

lemma scanEntries_grows:
  assumes "scanEntries h owner repo branch entries a w = (res, a', w')"
  shows "(hasDockerCompose a \<longrightarrow> hasDockerCompose a') \<and> (hasDockerfile a \<longrightarrow> hasDockerfile a')
     \<and> (hasTerraform a \<longrightarrow> hasTerraform a') \<and> (hasKubernetes a \<longrightarrow> hasKubernetes a')
     \<and> prefix (dockerfiles a) (dockerfiles a') \<and> prefix (terraformFiles a) (terraformFiles a')
     \<and> prefix (kubernetesFiles a) (kubernetesFiles a')"
  using assms
proof (induction entries arbitrary: a w)
  case Nil
  then show ?case by simp
next
  case (Cons entry rest)
  obtain r1 a1 w1 where e: "analyzeEntry h owner repo branch entry a w = (r1, a1, w1)"
    by (cases "analyzeEntry h owner repo branch entry a w") auto
  note g = analyzeEntry_grows[OF e]
  show ?case
  proof (cases r1)
    case None
    with e Cons.prems have "scanEntries h owner repo branch rest a1 w1 = (res, a', w')"
      by simp
    from Cons.IH[OF this] g show ?thesis
      by (auto intro: prefix_order.trans)
  next
    case (Some err)
    with e Cons.prems g show ?thesis by simp
  qed
qed

text \<open>The analysis returned holds what the scan had gathered at any point it passed.\<close>

lemma analyzeRepository_keeps:
  assumes "getRepoContents h owner repo [] branch w = (Inr (passed @ rest), w0)"
    and "scanEntries h owner repo branch passed emptyAnalysis w0 = (None, a2, w2)"
  shows "\<exists>res a v. scanEntries h owner repo branch rest a2 w2 = (res, a, v)
     \<and> fst (analyzeRepository h owner repo branch w) = Inr a
     \<and> (hasDockerCompose a2 \<longrightarrow> hasDockerCompose a) \<and> (hasDockerfile a2 \<longrightarrow> hasDockerfile a)
     \<and> (hasTerraform a2 \<longrightarrow> hasTerraform a) \<and> (hasKubernetes a2 \<longrightarrow> hasKubernetes a)
     \<and> prefix (dockerfiles a2) (dockerfiles a) \<and> prefix (terraformFiles a2) (terraformFiles a)
     \<and> prefix (kubernetesFiles a2) (kubernetesFiles a)"
proof -
  obtain res a v where r: "scanEntries h owner repo branch rest a2 w2 = (res, a, v)"
    by (cases "scanEntries h owner repo branch rest a2 w2") auto
  with assms(2) have s: "scanEntries h owner repo branch (passed @ rest) emptyAnalysis w0 = (res, a, v)"
    by (simp add: scanEntries_append)
  have "fst (analyzeRepository h owner repo branch w) = Inr a"
    using assms(1) s by (cases res) (simp_all add: analyzeRepository_def)
  with scanEntries_grows[OF r] r show ?thesis by blast
qed

subsection \<open>The sample host, request by request\<close>

lemma signedInAfter_token: "getGitHubToken (signedInAfter rs) = Some (js ''t0'')"
  by (simp add: signedInAfter_def signedIn_token)

lemma signedInAfter_requests [simp]: "requests (signedInAfter rs) = rs"
  by (simp add: signedInAfter_def)

lemma signedInAfter_console [simp]: "console (signedInAfter rs) = []"
  by (simp add: signedInAfter_def sample_defs)

lemma signedInAfter_update [simp]:
  "(signedInAfter rs)\<lparr>requests := rs'\<rparr> = signedInAfter rs'"
  by (simp add: signedInAfter_def)

lemma signedIn_start: "signedIn = signedInAfter []"
  by (simp add: signedInAfter_def sample_defs)

lemma sample_file_found_js:
  assumes "\<not> list_ex (endsWith (url (sampleRequest p))) missing"
  shows "getRepoFile (sampleHost listing missing) (js ''o'') (js ''r'') p None (signedInAfter rs)
           = (Inr (sampleFile p), signedInAfter (rs @ [sampleRequest p]))"
proof -
  have "fileApi (sampleHost listing missing) (requests (signedInAfter rs) @
          [apiRequest (js ''t0'') (contentsEndpoint (js ''o'') (js ''r'') p None) noOptions])
        = Some (respond (blob (url (sampleRequest p))))"
    using assms by (simp add: sampleHost_def isMissing_def sampleRequest_def)
  from githubApi_resolved[where net = "fileApi (sampleHost listing missing)",
      OF signedInAfter_token t0_not_empty this, of "blob (url (sampleRequest p))"]
  have "githubApi (fileApi (sampleHost listing missing))
          (contentsEndpoint (js ''o'') (js ''r'') p None) noOptions (signedInAfter rs)
        = (Inr (blob (url (sampleRequest p))), signedInAfter (rs @ [sampleRequest p]))"
    by (simp add: respond_def sampleRequest_def)
  moreover have "decodeContent (blob u) = Inr ((blob u)\<lparr>content := Some (js ''hi'')\<rparr>)" for u
    by (simp add: decodeContent_def blob_def atob_sample) (simp add: js_def)
  ultimately show ?thesis
    by (simp add: getRepoFile_def sampleFile_def)
qed

lemma sample_file_missing_js:
  assumes "list_ex (endsWith (url (sampleRequest p))) missing"
  shows "getRepoFile (sampleHost listing missing) (js ''o'') (js ''r'') p None (signedInAfter rs)
           = (Inl (Error (js ''GitHub API error: Not Found'')),
              signedInAfter (rs @ [sampleRequest p]))"
proof -
  have "fileApi (sampleHost listing missing) (requests (signedInAfter rs) @
          [apiRequest (js ''t0'') (contentsEndpoint (js ''o'') (js ''r'') p None) noOptions])
        = Some (refuse (js ''Not Found''))"
    using assms by (simp add: sampleHost_def isMissing_def sampleRequest_def)
  from githubApi_refused[where net = "fileApi (sampleHost listing missing)",
      OF signedInAfter_token t0_not_empty this]
  have "githubApi (fileApi (sampleHost listing missing))
          (contentsEndpoint (js ''o'') (js ''r'') p None) noOptions (signedInAfter rs)
        = (Inl (Error (js ''GitHub API error: Not Found'')),
           signedInAfter (rs @ [sampleRequest p]))"
    by (simp add: refuse_def sampleRequest_def) (simp add: js_def)
  then show ?thesis
    by (simp add: getRepoFile_def)
qed

text \<open>The same two facts as rewrite rules that still apply once the literals are
  evaluated.\<close>

lemma sample_file_found:
  assumes "owner = js ''o''" and "repo = js ''r''"
    and "\<not> list_ex (endsWith (url (sampleRequest p))) missing"
  shows "getRepoFile (sampleHost listing missing) owner repo p None (signedInAfter rs)
           = (Inr (sampleFile p), signedInAfter (rs @ [sampleRequest p]))"
  using assms by (simp add: sample_file_found_js)

lemma sample_file_missing:
  assumes "owner = js ''o''" and "repo = js ''r''"
    and "list_ex (endsWith (url (sampleRequest p))) missing"
  shows "getRepoFile (sampleHost listing missing) owner repo p None (signedInAfter rs)
           = (Inl (Error (js ''GitHub API error: Not Found'')),
              signedInAfter (rs @ [sampleRequest p]))"
  using assms by (simp add: sample_file_missing_js)

lemma sample_listing_found:
  assumes "\<not> list_ex (endsWith (url (sampleRequest []))) missing"
  shows "getRepoContents (sampleHost listing missing) (js ''o'') (js ''r'') [] None signedIn
           = (Inr listing, signedInAfter [sampleRequest []])"
proof -
  have "contentsApi (sampleHost listing missing) (requests (signedInAfter []) @
          [apiRequest (js ''t0'') (contentsEndpoint (js ''o'') (js ''r'') [] None) noOptions])
        = Some (respond listing)"
    using assms by (simp add: sampleHost_def isMissing_def sampleRequest_def)
  from githubApi_resolved[where net = "contentsApi (sampleHost listing missing)",
      OF signedInAfter_token t0_not_empty this, of listing]
  show ?thesis
    by (simp add: getRepoContents_def respond_def sampleRequest_def signedIn_start)
qed

lemma sample_listing_missing:
  assumes "list_ex (endsWith (url (sampleRequest []))) missing"
  shows "getRepoContents (sampleHost listing missing) (js ''o'') (js ''r'') [] None signedIn
           = (Inl (Error (js ''GitHub API error: Not Found'')),
              signedInAfter [sampleRequest []])"
proof -
  have "contentsApi (sampleHost listing missing) (requests (signedInAfter []) @
          [apiRequest (js ''t0'') (contentsEndpoint (js ''o'') (js ''r'') [] None) noOptions])
        = Some (refuse (js ''Not Found''))"
    using assms by (simp add: sampleHost_def isMissing_def sampleRequest_def)
  from githubApi_refused[where net = "contentsApi (sampleHost listing missing)",
      OF signedInAfter_token t0_not_empty this]
  show ?thesis
    by (simp add: getRepoContents_def refuse_def sampleRequest_def signedIn_start)
      (simp add: js_def)
qed

text \<open>The counting host, request by request.\<close>

lemma counting_listing:
  "getRepoContents (countingHost listing k) (js ''o'') (js ''r'') [] None signedIn
     = (Inr listing, signedInAfter [sampleRequest []])"
proof -
  have "contentsApi (countingHost listing k) (requests (signedInAfter []) @
          [apiRequest (js ''t0'') (contentsEndpoint (js ''o'') (js ''r'') [] None) noOptions])
        = Some (respond listing)"
    by (simp add: countingHost_def)
  from githubApi_resolved[where net = "contentsApi (countingHost listing k)",
      OF signedInAfter_token t0_not_empty this, of listing]
  show ?thesis
    by (simp add: getRepoContents_def respond_def sampleRequest_def signedIn_start)
qed

lemma counting_file_found:
  assumes "owner = js ''o''" and "repo = js ''r''" and "Suc (length rs) \<noteq> k"
  shows "getRepoFile (countingHost listing k) owner repo p None (signedInAfter rs)
           = (Inr (sampleFile p), signedInAfter (rs @ [sampleRequest p]))"
proof -
  have "fileApi (countingHost listing k) (requests (signedInAfter rs) @
          [apiRequest (js ''t0'') (contentsEndpoint (js ''o'') (js ''r'') p None) noOptions])
        = Some (respond (blob (url (sampleRequest p))))"
    using assms(3) by (simp add: countingHost_def sampleRequest_def)
  from githubApi_resolved[where net = "fileApi (countingHost listing k)",
      OF signedInAfter_token t0_not_empty this, of "blob (url (sampleRequest p))"]
  have "githubApi (fileApi (countingHost listing k))
          (contentsEndpoint (js ''o'') (js ''r'') p None) noOptions (signedInAfter rs)
        = (Inr (blob (url (sampleRequest p))), signedInAfter (rs @ [sampleRequest p]))"
    by (simp add: respond_def sampleRequest_def)
  moreover have "decodeContent (blob u) = Inr ((blob u)\<lparr>content := Some (js ''hi'')\<rparr>)" for u
    by (simp add: decodeContent_def blob_def atob_sample) (simp add: js_def)
  ultimately show ?thesis
    by (simp add: getRepoFile_def sampleFile_def assms(1,2))
qed

lemma counting_file_missing:
  assumes "owner = js ''o''" and "repo = js ''r''" and "Suc (length rs) = k"
  shows "getRepoFile (countingHost listing k) owner repo p None (signedInAfter rs)
           = (Inl (Error (js ''GitHub API error: Not Found'')),
              signedInAfter (rs @ [sampleRequest p]))"
proof -
  have "fileApi (countingHost listing k) (requests (signedInAfter rs) @
          [apiRequest (js ''t0'') (contentsEndpoint (js ''o'') (js ''r'') p None) noOptions])
        = Some (refuse (js ''Not Found''))"
    using assms(3) by (auto simp: countingHost_def)
  from githubApi_refused[where net = "fileApi (countingHost listing k)",
      OF signedInAfter_token t0_not_empty this]
  have "githubApi (fileApi (countingHost listing k))
          (contentsEndpoint (js ''o'') (js ''r'') p None) noOptions (signedInAfter rs)
        = (Inl (Error (js ''GitHub API error: Not Found'')),
           signedInAfter (rs @ [sampleRequest p]))"
    by (simp add: refuse_def sampleRequest_def) (simp add: js_def)
  then show ?thesis
    by (simp add: getRepoFile_def assms(1,2))
qed

text \<open>The facts that evaluate a scan of the sample host: the rules on the names, the
  four checks, and the answers of the host.\<close>

lemmas url_eval =
  sampleRequest_def apiRequest_def contentsEndpoint_def refQuery_def noOptions_def

lemmas scan_eval =
  analyzeEntry_def checkDockerCompose_def checkDockerfile_def checkTerraform_def
  checkKubernetes_def matchesDockerCompose_def isDockerfile_def isTerraform_def
  isKubernetes_def rootEntry_def sample_file_found sample_file_missing

subsection \<open>A scan cut short\<close>

lemma analyzeEntry_terraform_fails_after:
  assumes "isTerraform (name entry)"
    and "isDockerfile (name entry) \<longrightarrow>
           getRepoFile h owner repo (path entry) branch w1 = (Inr fD, wD)"
    and "\<not> isDockerfile (name entry) \<longrightarrow> wD = w1"
    and "getRepoFile h owner repo (path entry) branch wD = (Inl e, w2)"
  shows "analyzeEntry h owner repo branch entry a1 w1 =
     (Some e,
      a1\<lparr>hasDockerfile := hasDockerfile a1 \<or> isDockerfile (name entry),
         dockerfiles := dockerfiles a1 @ (if isDockerfile (name entry) then [fD] else []),
         hasTerraform := True\<rparr>,
      w2)"
  unfolding analyzeEntry_def
  by (simp add: checkDockerCompose_no_match[OF isTerraform_not_compose[OF assms(1)]]
      checkDockerfile_step[OF assms(2,3)] checkTerraform_failed[OF assms(1,4)])

lemma analyzeEntry_kubernetes_fails_after:
  assumes "isKubernetes (name entry)" and "type entry = Some (js ''file'')"
    and "isDockerfile (name entry) \<longrightarrow>
           getRepoFile h owner repo (path entry) branch w1 = (Inr fD, wD)"
    and "\<not> isDockerfile (name entry) \<longrightarrow> wD = w1"
    and "isTerraform (name entry) \<longrightarrow>
           getRepoFile h owner repo (path entry) branch wD = (Inr fT, wT)"
    and "\<not> isTerraform (name entry) \<longrightarrow> wT = wD"
    and "getRepoFile h owner repo (path entry) branch wT = (Inl e, w2)"
  shows "analyzeEntry h owner repo branch entry a1 w1 =
     (Some e,
      a1\<lparr>hasDockerfile := hasDockerfile a1 \<or> isDockerfile (name entry),
         dockerfiles := dockerfiles a1 @ (if isDockerfile (name entry) then [fD] else []),
         hasTerraform := hasTerraform a1 \<or> isTerraform (name entry),
         terraformFiles := terraformFiles a1 @ (if isTerraform (name entry) then [fT] else []),
         hasKubernetes := True\<rparr>,
      w2)"
  unfolding analyzeEntry_def
  by (simp add: checkDockerCompose_no_match[OF isKubernetes_not_compose[OF assms(1)]]
      checkDockerfile_step[OF assms(3,4)] checkTerraform_step[OF assms(5,6)]
      checkKubernetes_failed[OF assms(1,2,7)])

lemma analyzeRepository_stops:
  assumes "getRepoContents h owner repo [] branch w = (Inr (before @ entry # after), w0)"
    and "scanEntries h owner repo branch before emptyAnalysis w0 = (None, a1, w1)"
    and "analyzeEntry h owner repo branch entry a1 w1 = (Some e, a2, w2)"
  shows "analyzeRepository h owner repo branch w = (Inr a2, w2\<lparr>console := console w2 @ [e]\<rparr>)"
  using assms by (simp add: analyzeRepository_def scan_stops_at_failure)

text \<open>
  Claim C1. The scan never rejects: for every owner, repository, branch, host and state
  the promise of \<open>analyzeRepository\<close> resolves with an analysis. If the listing of the
  root directory fails, that analysis has the four flags false, no compose file and the
  three collections empty. If a file fetch fails, whichever rule of whichever entry
  asked for it, the scan stops there: the state returned is the one the failed fetch
  left, with the error printed on the console and no further request, and the analysis
  returned is the one accumulated so far, that is the analysis \<open>a1\<close> gathered over the
  entries before, the files this entry's earlier rules fetched, and the flag of the rule
  whose fetch failed. Nothing of the entries after is in it.
\<close>

theorem analyzeRepository_never_rejects:
  "(\<exists>a. fst (analyzeRepository h owner repo branch w) = Inr a)
   \<and> (\<forall>e w0. getRepoContents h owner repo [] branch w = (Inl e, w0) \<longrightarrow>
         analyzeRepository h owner repo branch w =
           (Inr \<lparr>hasDockerCompose = False, hasDockerfile = False, hasTerraform = False,
                 hasKubernetes = False, dockerComposeFile = None, dockerfiles = [],
                 terraformFiles = [], kubernetesFiles = []\<rparr>,
            w0\<lparr>console := console w0 @ [e]\<rparr>))
   \<and> (\<forall>before entry after w0 a1 w1 e w2 fD wD fT wT.
         getRepoContents h owner repo [] branch w = (Inr (before @ entry # after), w0)
         \<and> scanEntries h owner repo branch before emptyAnalysis w0 = (None, a1, w1) \<longrightarrow>
         (matchesDockerCompose (name entry)
            \<and> getRepoFile h owner repo (path entry) branch w1 = (Inl e, w2) \<longrightarrow>
          analyzeRepository h owner repo branch w =
            (Inr (a1\<lparr>hasDockerCompose := True\<rparr>), w2\<lparr>console := console w2 @ [e]\<rparr>))
       \<and> (isDockerfile (name entry)
            \<and> getRepoFile h owner repo (path entry) branch w1 = (Inl e, w2) \<longrightarrow>
          analyzeRepository h owner repo branch w =
            (Inr (a1\<lparr>hasDockerfile := True\<rparr>), w2\<lparr>console := console w2 @ [e]\<rparr>))
       \<and> (isTerraform (name entry)
            \<and> (isDockerfile (name entry) \<longrightarrow>
                 getRepoFile h owner repo (path entry) branch w1 = (Inr fD, wD))
            \<and> (\<not> isDockerfile (name entry) \<longrightarrow> wD = w1)
            \<and> getRepoFile h owner repo (path entry) branch wD = (Inl e, w2) \<longrightarrow>
          analyzeRepository h owner repo branch w =
            (Inr (a1\<lparr>hasDockerfile := hasDockerfile a1 \<or> isDockerfile (name entry),
                     dockerfiles :=
                       dockerfiles a1 @ (if isDockerfile (name entry) then [fD] else []),
                     hasTerraform := True\<rparr>),
             w2\<lparr>console := console w2 @ [e]\<rparr>))
       \<and> (isKubernetes (name entry) \<and> type entry = Some (js ''file'')
            \<and> (isDockerfile (name entry) \<longrightarrow>
                 getRepoFile h owner repo (path entry) branch w1 = (Inr fD, wD))
            \<and> (\<not> isDockerfile (name entry) \<longrightarrow> wD = w1)
            \<and> (isTerraform (name entry) \<longrightarrow>
                 getRepoFile h owner repo (path entry) branch wD = (Inr fT, wT))
            \<and> (\<not> isTerraform (name entry) \<longrightarrow> wT = wD)
            \<and> getRepoFile h owner repo (path entry) branch wT = (Inl e, w2) \<longrightarrow>
          analyzeRepository h owner repo branch w =
            (Inr (a1\<lparr>hasDockerfile := hasDockerfile a1 \<or> isDockerfile (name entry),
                     dockerfiles :=
                       dockerfiles a1 @ (if isDockerfile (name entry) then [fD] else []),
                     hasTerraform := hasTerraform a1 \<or> isTerraform (name entry),
                     terraformFiles :=
                       terraformFiles a1 @ (if isTerraform (name entry) then [fT] else []),
                     hasKubernetes := True\<rparr>),
             w2\<lparr>console := console w2 @ [e]\<rparr>)))"
proof (intro conjI allI impI)
  show "\<exists>a. fst (analyzeRepository h owner repo branch w) = Inr a"
    by (simp add: analyzeRepository_def split: prod.splits sum.splits option.splits)
next
  fix e w0
  assume "getRepoContents h owner repo [] branch w = (Inl e, w0)"
  then show "analyzeRepository h owner repo branch w =
           (Inr \<lparr>hasDockerCompose = False, hasDockerfile = False, hasTerraform = False,
                 hasKubernetes = False, dockerComposeFile = None, dockerfiles = [],
                 terraformFiles = [], kubernetesFiles = []\<rparr>,
            w0\<lparr>console := console w0 @ [e]\<rparr>)"
    by (simp add: analyzeRepository_def emptyAnalysis_def)
next
  fix before entry after w0 a1 w1 e w2 and fD :: GitHubFile and wD :: World
    and fT :: GitHubFile and wT :: World
  assume r: "getRepoContents h owner repo [] branch w = (Inr (before @ entry # after), w0)
         \<and> scanEntries h owner repo branch before emptyAnalysis w0 = (None, a1, w1)"
  note stops = analyzeRepository_stops[OF conjunct1[OF r] conjunct2[OF r]]
  {
    assume "matchesDockerCompose (name entry)
            \<and> getRepoFile h owner repo (path entry) branch w1 = (Inl e, w2)"
    then show "analyzeRepository h owner repo branch w =
            (Inr (a1\<lparr>hasDockerCompose := True\<rparr>), w2\<lparr>console := console w2 @ [e]\<rparr>)"
      by (intro stops analyzeEntry_compose_fetch_fails) simp_all
  next
    assume "isDockerfile (name entry)
            \<and> getRepoFile h owner repo (path entry) branch w1 = (Inl e, w2)"
    then show "analyzeRepository h owner repo branch w =
            (Inr (a1\<lparr>hasDockerfile := True\<rparr>), w2\<lparr>console := console w2 @ [e]\<rparr>)"
      by (intro stops analyzeEntry_dockerfile_fetch_fails) simp_all
  next
    assume "isTerraform (name entry)
            \<and> (isDockerfile (name entry) \<longrightarrow>
                 getRepoFile h owner repo (path entry) branch w1 = (Inr fD, wD))
            \<and> (\<not> isDockerfile (name entry) \<longrightarrow> wD = w1)
            \<and> getRepoFile h owner repo (path entry) branch wD = (Inl e, w2)"
    then show "analyzeRepository h owner repo branch w =
            (Inr (a1\<lparr>hasDockerfile := hasDockerfile a1 \<or> isDockerfile (name entry),
                     dockerfiles :=
                       dockerfiles a1 @ (if isDockerfile (name entry) then [fD] else []),
                     hasTerraform := True\<rparr>),
             w2\<lparr>console := console w2 @ [e]\<rparr>)"
      by (intro stops analyzeEntry_terraform_fails_after) blast+
  next
    assume "isKubernetes (name entry) \<and> type entry = Some (js ''file'')
            \<and> (isDockerfile (name entry) \<longrightarrow>
                 getRepoFile h owner repo (path entry) branch w1 = (Inr fD, wD))
            \<and> (\<not> isDockerfile (name entry) \<longrightarrow> wD = w1)
            \<and> (isTerraform (name entry) \<longrightarrow>
                 getRepoFile h owner repo (path entry) branch wD = (Inr fT, wT))
            \<and> (\<not> isTerraform (name entry) \<longrightarrow> wT = wD)
            \<and> getRepoFile h owner repo (path entry) branch wT = (Inl e, w2)"
    then show "analyzeRepository h owner repo branch w =
            (Inr (a1\<lparr>hasDockerfile := hasDockerfile a1 \<or> isDockerfile (name entry),
                     dockerfiles :=
                       dockerfiles a1 @ (if isDockerfile (name entry) then [fD] else []),
                     hasTerraform := hasTerraform a1 \<or> isTerraform (name entry),
                     terraformFiles :=
                       terraformFiles a1 @ (if isTerraform (name entry) then [fT] else []),
                     hasKubernetes := True\<rparr>),
             w2\<lparr>console := console w2 @ [e]\<rparr>)"
      by (intro stops analyzeEntry_kubernetes_fails_after) blast+
  }
qed

theorem analyzeRepository_never_rejects_witness:
  "analyzeRepository (sampleHost [] [js ''/contents/'']) (js ''o'') (js ''r'') None signedIn
     = (Inr \<lparr>hasDockerCompose = False, hasDockerfile = False, hasTerraform = False,
             hasKubernetes = False, dockerComposeFile = None, dockerfiles = [],
             terraformFiles = [], kubernetesFiles = []\<rparr>,
        (signedInAfter [sampleRequest []])
          \<lparr>console := [Error (js ''GitHub API error: Not Found'')]\<rparr>)
   \<and> analyzeRepository
        (sampleHost [rootEntry (js ''main.tf'') (js ''file''),
                     rootEntry (js ''Dockerfile'') (js ''file''),
                     rootEntry (js ''k8s.yaml'') (js ''file'')] [js ''/Dockerfile''])
        (js ''o'') (js ''r'') None signedIn
     = (Inr \<lparr>hasDockerCompose = False, hasDockerfile = True, hasTerraform = True,
             hasKubernetes = False, dockerComposeFile = None, dockerfiles = [],
             terraformFiles = [sampleFile (js ''main.tf'')], kubernetesFiles = []\<rparr>,
        (signedInAfter [sampleRequest [], sampleRequest (js ''main.tf''),
                        sampleRequest (js ''Dockerfile'')])
          \<lparr>console := [Error (js ''GitHub API error: Not Found'')]\<rparr>)
   \<and> analyzeRepository
        (countingHost [rootEntry (js ''Dockerfile.k8s.tf'') (js ''file''),
                       rootEntry (js ''docker-compose.yml'') (js ''file'')] 4)
        (js ''o'') (js ''r'') None signedIn
     = (Inr \<lparr>hasDockerCompose = False, hasDockerfile = True, hasTerraform = True,
             hasKubernetes = True, dockerComposeFile = None,
             dockerfiles = [sampleFile (js ''Dockerfile.k8s.tf'')],
             terraformFiles = [sampleFile (js ''Dockerfile.k8s.tf'')], kubernetesFiles = []\<rparr>,
        (signedInAfter [sampleRequest [], sampleRequest (js ''Dockerfile.k8s.tf''),
                        sampleRequest (js ''Dockerfile.k8s.tf''),
                        sampleRequest (js ''Dockerfile.k8s.tf'')])
          \<lparr>console := [Error (js ''GitHub API error: Not Found'')]\<rparr>)
   \<and> analyzeRepository
        (countingHost [rootEntry (js ''Dockerfile.tf'') (js ''file''),
                       rootEntry (js ''k8s.yaml'') (js ''file'')] 3)
        (js ''o'') (js ''r'') None signedIn
     = (Inr \<lparr>hasDockerCompose = False, hasDockerfile = True, hasTerraform = True,
             hasKubernetes = False, dockerComposeFile = None,
             dockerfiles = [sampleFile (js ''Dockerfile.tf'')],
             terraformFiles = [], kubernetesFiles = []\<rparr>,
        (signedInAfter [sampleRequest [], sampleRequest (js ''Dockerfile.tf''),
                        sampleRequest (js ''Dockerfile.tf'')])
          \<lparr>console := [Error (js ''GitHub API error: Not Found'')]\<rparr>)
   \<and> analyzeRepository
        (sampleHost [rootEntry (js ''docker-compose.yml'') (js ''file''),
                     rootEntry (js ''Dockerfile'') (js ''file'')] [js ''/docker-compose.yml''])
        (js ''o'') (js ''r'') None signedIn
     = (Inr \<lparr>hasDockerCompose = True, hasDockerfile = False, hasTerraform = False,
             hasKubernetes = False, dockerComposeFile = None, dockerfiles = [],
             terraformFiles = [], kubernetesFiles = []\<rparr>,
        (signedInAfter [sampleRequest [], sampleRequest (js ''docker-compose.yml'')])
          \<lparr>console := [Error (js ''GitHub API error: Not Found'')]\<rparr>)"
proof -
  let ?h1 = "sampleHost [] [js ''/contents/'']"
  let ?d = "rootEntry (js ''Dockerfile'') (js ''file'')"
  let ?h2 = "sampleHost [rootEntry (js ''main.tf'') (js ''file''), ?d,
                         rootEntry (js ''k8s.yaml'') (js ''file'')] [js ''/Dockerfile'']"
  let ?k = "rootEntry (js ''Dockerfile.k8s.tf'') (js ''file'')"
  let ?h3 = "countingHost [?k, rootEntry (js ''docker-compose.yml'') (js ''file'')] 4"
  let ?a1 = "emptyAnalysis\<lparr>hasTerraform := True, terraformFiles := [sampleFile (js ''main.tf'')]\<rparr>"
  let ?w0 = "signedInAfter [sampleRequest []]"
  let ?f = "sampleFile (js ''Dockerfile.k8s.tf'')"
  let ?r = "sampleRequest (js ''Dockerfile.k8s.tf'')"
  note t = analyzeRepository_never_rejects
  \<comment> \<open>the listing fails\<close>
  have "list_ex (endsWith (url (sampleRequest []))) [js ''/contents/'']"
    by (simp add: url_eval string_defs)
  then have l1: "getRepoContents ?h1 (js ''o'') (js ''r'') [] None signedIn
      = (Inl (Error (js ''GitHub API error: Not Found'')), ?w0)"
    by (rule sample_listing_missing)
  from t[of ?h1 "js ''o''" "js ''r''" None signedIn] l1
  have p1: "analyzeRepository ?h1 (js ''o'') (js ''r'') None signedIn =
           (Inr \<lparr>hasDockerCompose = False, hasDockerfile = False, hasTerraform = False,
                 hasKubernetes = False, dockerComposeFile = None, dockerfiles = [],
                 terraformFiles = [], kubernetesFiles = []\<rparr>,
            ?w0\<lparr>console := console ?w0 @ [Error (js ''GitHub API error: Not Found'')]\<rparr>)"
    by blast
  \<comment> \<open>the fetch of the second entry fails\<close>
  have "\<not> list_ex (endsWith (url (sampleRequest []))) [js ''/Dockerfile'']"
    by (simp add: url_eval string_defs)
  then have l2: "getRepoContents ?h2 (js ''o'') (js ''r'') [] None signedIn
      = (Inr ([rootEntry (js ''main.tf'') (js ''file'')] @ ?d
               # [rootEntry (js ''k8s.yaml'') (js ''file'')]), ?w0)"
    by (simp add: sample_listing_found)
  have s2: "scanEntries ?h2 (js ''o'') (js ''r'') None [rootEntry (js ''main.tf'') (js ''file'')]
             emptyAnalysis ?w0
      = (None, ?a1, signedInAfter [sampleRequest [], sampleRequest (js ''main.tf'')])"
    by (simp add: scan_eval url_eval string_defs)
  have d2: "isDockerfile (name ?d)"
    by (simp add: isDockerfile_def rootEntry_def)
  have "list_ex (endsWith (url (sampleRequest (path ?d)))) [js ''/Dockerfile'']"
    by (simp add: url_eval string_defs rootEntry_def)
  then have f2: "getRepoFile ?h2 (js ''o'') (js ''r'') (path ?d) None
        (signedInAfter [sampleRequest [], sampleRequest (js ''main.tf'')])
      = (Inl (Error (js ''GitHub API error: Not Found'')),
         signedInAfter ([sampleRequest [], sampleRequest (js ''main.tf'')]
                        @ [sampleRequest (path ?d)]))"
    by (rule sample_file_missing_js)
  from t[of ?h2 "js ''o''" "js ''r''" None signedIn] l2 s2 d2 f2
  have p2: "analyzeRepository ?h2 (js ''o'') (js ''r'') None signedIn =
      (Inr (?a1\<lparr>hasDockerfile := True\<rparr>),
       (signedInAfter ([sampleRequest [], sampleRequest (js ''main.tf'')]
                        @ [sampleRequest (path ?d)]))
         \<lparr>console := console (signedInAfter ([sampleRequest [], sampleRequest (js ''main.tf'')]
                        @ [sampleRequest (path ?d)]))
              @ [Error (js ''GitHub API error: Not Found'')]\<rparr>)"
    by blast
  \<comment> \<open>the third fetch for one entry fails\<close>
  have l3: "getRepoContents ?h3 (js ''o'') (js ''r'') [] None signedIn
      = (Inr ([] @ ?k # [rootEntry (js ''docker-compose.yml'') (js ''file'')]), ?w0)"
    by (simp add: counting_listing)
  have s3: "scanEntries ?h3 (js ''o'') (js ''r'') None [] emptyAnalysis ?w0
      = (None, emptyAnalysis, ?w0)"
    by simp
  have n3: "isKubernetes (name ?k)" "type ?k = Some (js ''file'')" "isDockerfile (name ?k)"
    "isTerraform (name ?k)"
    by (simp_all add: isKubernetes_def isDockerfile_def isTerraform_def rootEntry_def string_defs)
  have p: "path ?k = js ''Dockerfile.k8s.tf''"
    by (simp add: rootEntry_def)
  have fD: "getRepoFile ?h3 (js ''o'') (js ''r'') (path ?k) None ?w0
      = (Inr ?f, signedInAfter [sampleRequest [], ?r])"
    unfolding p by (simp add: counting_file_found)
  have fT: "getRepoFile ?h3 (js ''o'') (js ''r'') (path ?k) None
        (signedInAfter [sampleRequest [], ?r])
      = (Inr ?f, signedInAfter [sampleRequest [], ?r, ?r])"
    unfolding p by (simp add: counting_file_found)
  have fK: "getRepoFile ?h3 (js ''o'') (js ''r'') (path ?k) None
        (signedInAfter [sampleRequest [], ?r, ?r])
      = (Inl (Error (js ''GitHub API error: Not Found'')),
         signedInAfter [sampleRequest [], ?r, ?r, ?r])"
    unfolding p by (simp add: counting_file_missing)
  from t[of ?h3 "js ''o''" "js ''r''" None signedIn] l3 s3 n3 fD fT fK
  have p3: "analyzeRepository ?h3 (js ''o'') (js ''r'') None signedIn =
      (Inr (emptyAnalysis\<lparr>hasDockerfile := hasDockerfile emptyAnalysis \<or> isDockerfile (name ?k),
              dockerfiles := dockerfiles emptyAnalysis @ (if isDockerfile (name ?k) then [?f] else []),
              hasTerraform := hasTerraform emptyAnalysis \<or> isTerraform (name ?k),
              terraformFiles :=
                terraformFiles emptyAnalysis @ (if isTerraform (name ?k) then [?f] else []),
              hasKubernetes := True\<rparr>),
       (signedInAfter [sampleRequest [], ?r, ?r, ?r])
         \<lparr>console := console (signedInAfter [sampleRequest [], ?r, ?r, ?r])
              @ [Error (js ''GitHub API error: Not Found'')]\<rparr>)"
    by blast
  \<comment> \<open>the second fetch for one entry fails\<close>
  let ?dt = "rootEntry (js ''Dockerfile.tf'') (js ''file'')"
  let ?h4 = "countingHost [?dt, rootEntry (js ''k8s.yaml'') (js ''file'')] 3"
  let ?g = "sampleFile (js ''Dockerfile.tf'')"
  let ?q = "sampleRequest (js ''Dockerfile.tf'')"
  have l4: "getRepoContents ?h4 (js ''o'') (js ''r'') [] None signedIn
      = (Inr ([] @ ?dt # [rootEntry (js ''k8s.yaml'') (js ''file'')]), ?w0)"
    by (simp add: counting_listing)
  have s4: "scanEntries ?h4 (js ''o'') (js ''r'') None [] emptyAnalysis ?w0
      = (None, emptyAnalysis, ?w0)"
    by simp
  have n4: "isTerraform (name ?dt)" "isDockerfile (name ?dt)"
    by (simp_all add: isDockerfile_def isTerraform_def rootEntry_def string_defs)
  have p': "path ?dt = js ''Dockerfile.tf''"
    by (simp add: rootEntry_def)
  have gD: "getRepoFile ?h4 (js ''o'') (js ''r'') (path ?dt) None ?w0
      = (Inr ?g, signedInAfter [sampleRequest [], ?q])"
    unfolding p' by (simp add: counting_file_found)
  have gT: "getRepoFile ?h4 (js ''o'') (js ''r'') (path ?dt) None
        (signedInAfter [sampleRequest [], ?q])
      = (Inl (Error (js ''GitHub API error: Not Found'')),
         signedInAfter [sampleRequest [], ?q, ?q])"
    unfolding p' by (simp add: counting_file_missing)
  from t[of ?h4 "js ''o''" "js ''r''" None signedIn] l4 s4 n4 gD gT
  have p4: "analyzeRepository ?h4 (js ''o'') (js ''r'') None signedIn =
      (Inr (emptyAnalysis\<lparr>hasDockerfile := hasDockerfile emptyAnalysis \<or> isDockerfile (name ?dt),
              dockerfiles := dockerfiles emptyAnalysis @ (if isDockerfile (name ?dt) then [?g] else []),
              hasTerraform := True\<rparr>),
       (signedInAfter [sampleRequest [], ?q, ?q])
         \<lparr>console := console (signedInAfter [sampleRequest [], ?q, ?q])
              @ [Error (js ''GitHub API error: Not Found'')]\<rparr>)"
    by blast
  \<comment> \<open>the fetch of a compose file fails\<close>
  let ?c = "rootEntry (js ''docker-compose.yml'') (js ''file'')"
  let ?h5 = "sampleHost [?c, rootEntry (js ''Dockerfile'') (js ''file'')]
               [js ''/docker-compose.yml'']"
  have "\<not> list_ex (endsWith (url (sampleRequest []))) [js ''/docker-compose.yml'']"
    by (simp add: url_eval string_defs)
  then have l5: "getRepoContents ?h5 (js ''o'') (js ''r'') [] None signedIn
      = (Inr ([] @ ?c # [rootEntry (js ''Dockerfile'') (js ''file'')]), ?w0)"
    by (simp add: sample_listing_found)
  have s5: "scanEntries ?h5 (js ''o'') (js ''r'') None [] emptyAnalysis ?w0
      = (None, emptyAnalysis, ?w0)"
    by simp
  have n5: "matchesDockerCompose (name ?c)"
    by (simp add: matchesDockerCompose_iff rootEntry_def)
  have "list_ex (endsWith (url (sampleRequest (path ?c)))) [js ''/docker-compose.yml'']"
    by (simp add: url_eval string_defs rootEntry_def)
  then have f5: "getRepoFile ?h5 (js ''o'') (js ''r'') (path ?c) None ?w0
      = (Inl (Error (js ''GitHub API error: Not Found'')),
         signedInAfter ([sampleRequest []] @ [sampleRequest (path ?c)]))"
    by (rule sample_file_missing_js)
  from t[of ?h5 "js ''o''" "js ''r''" None signedIn] l5 s5 n5 f5
  have p5: "analyzeRepository ?h5 (js ''o'') (js ''r'') None signedIn =
      (Inr (emptyAnalysis\<lparr>hasDockerCompose := True\<rparr>),
       (signedInAfter ([sampleRequest []] @ [sampleRequest (path ?c)]))
         \<lparr>console := console (signedInAfter ([sampleRequest []] @ [sampleRequest (path ?c)]))
              @ [Error (js ''GitHub API error: Not Found'')]\<rparr>)"
    by blast
  show ?thesis
    unfolding p1 p2 p3 p4 p5
    by (simp add: emptyAnalysis_def rootEntry_def isDockerfile_def isTerraform_def string_defs)
qed

text \<open>
  Claim C10. In the body of the loop each flag is assigned before the content of the
  entry is fetched. So when the fetch that a rule triggers fails, the analysis returned
  has that rule's flag true and the entry missing from the rule's collection: the
  compose flag true with the compose file as it was, the container-build flag true
  with the collection as it was, and the same for the provisioning and orchestration
  rules. (Here \<open>a1\<close> is the analysis accumulated over the entries before; the failing
  fetch is the first one the entry triggers.)
\<close>

theorem flag_set_before_fetch:
  assumes "getRepoContents h owner repo [] branch w = (Inr (before @ entry # after), w0)"
    and "scanEntries h owner repo branch before emptyAnalysis w0 = (None, a1, w1)"
    and "getRepoFile h owner repo (path entry) branch w1 = (Inl e, w2)"
  shows "(matchesDockerCompose (name entry) \<longrightarrow>
            fst (analyzeRepository h owner repo branch w) = Inr (a1\<lparr>hasDockerCompose := True\<rparr>))
       \<and> (isDockerfile (name entry) \<longrightarrow>
            fst (analyzeRepository h owner repo branch w) = Inr (a1\<lparr>hasDockerfile := True\<rparr>))
       \<and> (isTerraform (name entry) \<and> \<not> isDockerfile (name entry) \<longrightarrow>
            fst (analyzeRepository h owner repo branch w) = Inr (a1\<lparr>hasTerraform := True\<rparr>))
       \<and> (isKubernetes (name entry) \<and> type entry = Some (js ''file'')
            \<and> \<not> matchesDockerCompose (name entry) \<and> \<not> isDockerfile (name entry)
            \<and> \<not> isTerraform (name entry) \<longrightarrow>
            fst (analyzeRepository h owner repo branch w) = Inr (a1\<lparr>hasKubernetes := True\<rparr>))"
proof -
  have stop: "fst (analyzeRepository h owner repo branch w) = Inr a2"
    if "analyzeEntry h owner repo branch entry a1 w1 = (Some e, a2, w2)" for a2
    using assms(1,2) that by (simp add: analyzeRepository_def scan_stops_at_failure)
  show ?thesis
    using assms(3)
    by (auto intro!: stop analyzeEntry_compose_fetch_fails analyzeEntry_dockerfile_fetch_fails
        analyzeEntry_terraform_fetch_fails analyzeEntry_kubernetes_fetch_fails)
qed

theorem flag_set_before_fetch_witness:
  "fst (analyzeRepository
         (sampleHost [rootEntry (js ''docker-compose.yml'') (js ''file'')]
            [js ''/docker-compose.yml''])
         (js ''o'') (js ''r'') None signedIn)
     = Inr \<lparr>hasDockerCompose = True, hasDockerfile = False, hasTerraform = False,
            hasKubernetes = False, dockerComposeFile = None, dockerfiles = [],
            terraformFiles = [], kubernetesFiles = []\<rparr>
   \<and> fst (analyzeRepository
         (sampleHost [rootEntry (js ''Dockerfile'') (js ''file'')] [js ''/Dockerfile''])
         (js ''o'') (js ''r'') None signedIn)
     = Inr \<lparr>hasDockerCompose = False, hasDockerfile = True, hasTerraform = False,
            hasKubernetes = False, dockerComposeFile = None, dockerfiles = [],
            terraformFiles = [], kubernetesFiles = []\<rparr>"
proof -
  let ?c = "rootEntry (js ''docker-compose.yml'') (js ''file'')"
  let ?d = "rootEntry (js ''Dockerfile'') (js ''file'')"
  let ?hc = "sampleHost [?c] [js ''/docker-compose.yml'']"
  let ?hd = "sampleHost [?d] [js ''/Dockerfile'']"
  let ?w0 = "signedInAfter [sampleRequest []]"
  have "\<not> list_ex (endsWith (url (sampleRequest []))) [js ''/docker-compose.yml'']"
    by (simp add: url_eval string_defs)
  then have lc: "getRepoContents ?hc (js ''o'') (js ''r'') [] None signedIn
      = (Inr ([] @ ?c # []), ?w0)"
    by (simp add: sample_listing_found)
  have "\<not> list_ex (endsWith (url (sampleRequest []))) [js ''/Dockerfile'']"
    by (simp add: url_eval string_defs)
  then have ld: "getRepoContents ?hd (js ''o'') (js ''r'') [] None signedIn
      = (Inr ([] @ ?d # []), ?w0)"
    by (simp add: sample_listing_found)
  have sc: "scanEntries ?hc (js ''o'') (js ''r'') None [] emptyAnalysis ?w0
              = (None, emptyAnalysis, ?w0)"
    and sd: "scanEntries ?hd (js ''o'') (js ''r'') None [] emptyAnalysis ?w0
              = (None, emptyAnalysis, ?w0)"
    by simp_all
  have "list_ex (endsWith (url (sampleRequest (path ?c)))) [js ''/docker-compose.yml'']"
    by (simp add: url_eval string_defs rootEntry_def)
  then have fc: "getRepoFile ?hc (js ''o'') (js ''r'') (path ?c) None ?w0
      = (Inl (Error (js ''GitHub API error: Not Found'')),
         signedInAfter ([sampleRequest []] @ [sampleRequest (path ?c)]))"
    by (rule sample_file_missing_js)
  have "list_ex (endsWith (url (sampleRequest (path ?d)))) [js ''/Dockerfile'']"
    by (simp add: url_eval string_defs rootEntry_def)
  then have fd: "getRepoFile ?hd (js ''o'') (js ''r'') (path ?d) None ?w0
      = (Inl (Error (js ''GitHub API error: Not Found'')),
         signedInAfter ([sampleRequest []] @ [sampleRequest (path ?d)]))"
    by (rule sample_file_missing_js)
  have mc: "matchesDockerCompose (name ?c)"
    by (simp add: matchesDockerCompose_iff rootEntry_def)
  have md: "isDockerfile (name ?d)"
    by (simp add: isDockerfile_def rootEntry_def)
  from flag_set_before_fetch[OF lc sc fc] mc flag_set_before_fetch[OF ld sd fd] md
  show ?thesis by (simp add: emptyAnalysis_def)
qed

subsection \<open>The compose file\<close>

lemma checks_keep_compose:
  "checkDockerfile h owner repo branch entry a w = (res, a', w') \<Longrightarrow>
     hasDockerCompose a' = hasDockerCompose a \<and> dockerComposeFile a' = dockerComposeFile a"
  "checkTerraform h owner repo branch entry a w = (res, a', w') \<Longrightarrow>
     hasDockerCompose a' = hasDockerCompose a \<and> dockerComposeFile a' = dockerComposeFile a"
  "checkKubernetes h owner repo branch entry a w = (res, a', w') \<Longrightarrow>
     hasDockerCompose a' = hasDockerCompose a \<and> dockerComposeFile a' = dockerComposeFile a"
  by (auto simp: checkDockerfile_def checkTerraform_def checkKubernetes_def
      split: if_splits prod.splits sum.splits)

lemma later_checks_keep_compose:
  assumes "andThen (andThen (checkDockerfile h owner repo branch entry a w)
             (checkTerraform h owner repo branch entry)) (checkKubernetes h owner repo branch entry)
           = (res, a', w')"
  shows "hasDockerCompose a' = hasDockerCompose a \<and> dockerComposeFile a' = dockerComposeFile a"
proof -
  from andThen_cases[OF assms]
  consider (k) a3 w3 where
      "andThen (checkDockerfile h owner repo branch entry a w)
         (checkTerraform h owner repo branch entry) = (None, a3, w3)"
      "checkKubernetes h owner repo branch entry a3 w3 = (res, a', w')"
    | (r) "andThen (checkDockerfile h owner repo branch entry a w)
         (checkTerraform h owner repo branch entry) = (res, a', w')"
    by auto
  then show ?thesis
  proof cases
    case k
    from andThen_cases[OF k(1)] obtain a2 w2 where
      "checkDockerfile h owner repo branch entry a w = (None, a2, w2)"
      "checkTerraform h owner repo branch entry a2 w2 = (None, a3, w3)"
      by auto
    with k(2) show ?thesis
      by (auto dest!: checks_keep_compose)
  next
    case r
    from andThen_cases[OF r] show ?thesis
      by (auto dest!: checks_keep_compose)
  qed
qed

lemma andThen_assoc:
  "andThen (andThen s f) g = andThen s (\<lambda>a w. andThen (f a w) g)"
  by (cases s) (auto simp: andThen_def split: option.splits)

lemma analyzeEntry_after_compose:
  "analyzeEntry h owner repo branch entry a w =
     andThen (checkDockerCompose h owner repo branch entry a w)
       (\<lambda>a1 w1. andThen (andThen (checkDockerfile h owner repo branch entry a1 w1)
                   (checkTerraform h owner repo branch entry))
                   (checkKubernetes h owner repo branch entry))"
  by (simp add: analyzeEntry_def andThen_assoc)

lemma analyzeEntry_keeps_compose:
  assumes "\<not> matchesDockerCompose (name entry)"
    and "analyzeEntry h owner repo branch entry a w = (res, a', w')"
  shows "hasDockerCompose a' = hasDockerCompose a \<and> dockerComposeFile a' = dockerComposeFile a"
  using assms
  by (simp add: analyzeEntry_after_compose checkDockerCompose_no_match later_checks_keep_compose)

lemma scanEntries_keeps_compose:
  assumes "\<forall>x\<in>set entries. \<not> matchesDockerCompose (name x)"
    and "scanEntries h owner repo branch entries a w = (res, a', w')"
  shows "hasDockerCompose a' = hasDockerCompose a \<and> dockerComposeFile a' = dockerComposeFile a"
  using assms
proof (induction entries arbitrary: a w)
  case Nil
  then show ?case by simp
next
  case (Cons entry rest)
  obtain r1 a1 w1 where e: "analyzeEntry h owner repo branch entry a w = (r1, a1, w1)"
    by (cases "analyzeEntry h owner repo branch entry a w") auto
  from Cons.prems(1) have "\<not> matchesDockerCompose (name entry)"
    by simp
  from analyzeEntry_keeps_compose[OF this e]
  have k: "hasDockerCompose a1 = hasDockerCompose a
      \<and> dockerComposeFile a1 = dockerComposeFile a" .
  show ?case
  proof (cases r1)
    case None
    with e Cons.prems(2) have "scanEntries h owner repo branch rest a1 w1 = (res, a', w')"
      by simp
    with Cons.IH[of a1 w1] Cons.prems(1) k show ?thesis by simp
  next
    case (Some err)
    with e Cons.prems(2) k show ?thesis by simp
  qed
qed

lemma analyzeEntry_stores_compose:
  assumes "matchesDockerCompose (name entry)"
    and "getRepoFile h owner repo (path entry) branch w = (Inr f, w1)"
    and "analyzeEntry h owner repo branch entry a w = (res, a', w')"
  shows "hasDockerCompose a' \<and> dockerComposeFile a' = Some f"
proof -
  have "checkDockerCompose h owner repo branch entry a w =
          (None, a\<lparr>hasDockerCompose := True, dockerComposeFile := Some f\<rparr>, w1)"
    using assms(1,2) by (simp add: checkDockerCompose_def)
  with assms(3) have "andThen (andThen
      (checkDockerfile h owner repo branch entry
         (a\<lparr>hasDockerCompose := True, dockerComposeFile := Some f\<rparr>) w1)
      (checkTerraform h owner repo branch entry)) (checkKubernetes h owner repo branch entry)
      = (res, a', w')"
    by (simp add: analyzeEntry_after_compose)
  from later_checks_keep_compose[OF this] show ?thesis by simp
qed

lemma last_compose_entry_wins:
  assumes "scanEntries h owner repo branch before a w = (None, a1, w1)"
    and "matchesDockerCompose (name entry)"
    and "getRepoFile h owner repo (path entry) branch w1 = (Inr f, w2)"
    and "\<forall>x\<in>set after. \<not> matchesDockerCompose (name x)"
    and "scanEntries h owner repo branch (before @ entry # after) a w = (res, a', w')"
  shows "hasDockerCompose a' \<and> dockerComposeFile a' = Some f"
proof -
  obtain r2 a2 w2' where e: "analyzeEntry h owner repo branch entry a1 w1 = (r2, a2, w2')"
    by (cases "analyzeEntry h owner repo branch entry a1 w1") auto
  from analyzeEntry_stores_compose[OF assms(2,3) e]
  have k: "hasDockerCompose a2 \<and> dockerComposeFile a2 = Some f" .
  show ?thesis
  proof (cases r2)
    case None
    with e assms(1,5) have "scanEntries h owner repo branch after a2 w2' = (res, a', w')"
      by (simp add: scanEntries_append)
    from scanEntries_keeps_compose[OF assms(4) this] k show ?thesis by simp
  next
    case (Some err)
    with e assms(1,5) k show ?thesis by (simp add: scanEntries_append)
  qed
qed

subsection \<open>An entry the scan reaches\<close>

text \<open>What an entry did to the analysis is still there in the analysis returned, whether
  the scan went on to the entries after it or stopped at one of its own fetches.\<close>

lemma analyzeRepository_after_entry:
  assumes "getRepoContents h owner repo [] branch w = (Inr (before @ entry # after), w0)"
    and "scanEntries h owner repo branch before emptyAnalysis w0 = (None, a1, w1)"
    and "analyzeEntry h owner repo branch entry a1 w1 = (res, a2, w2)"
  shows "\<exists>a. fst (analyzeRepository h owner repo branch w) = Inr a
     \<and> (hasDockerCompose a2 \<longrightarrow> hasDockerCompose a) \<and> (hasDockerfile a2 \<longrightarrow> hasDockerfile a)
     \<and> (hasTerraform a2 \<longrightarrow> hasTerraform a) \<and> (hasKubernetes a2 \<longrightarrow> hasKubernetes a)
     \<and> prefix (dockerfiles a2) (dockerfiles a) \<and> prefix (terraformFiles a2) (terraformFiles a)
     \<and> prefix (kubernetesFiles a2) (kubernetesFiles a)
     \<and> (res = None \<longrightarrow> (\<exists>r v. scanEntries h owner repo branch after a2 w2 = (r, a, v)))
     \<and> (res \<noteq> None \<longrightarrow> a = a2)"
proof (cases res)
  case None
  with assms(2,3) have s: "scanEntries h owner repo branch (before @ [entry]) emptyAnalysis w0
      = (None, a2, w2)"
    by (simp add: scanEntries_append)
  from assms(1) have "getRepoContents h owner repo [] branch w
      = (Inr ((before @ [entry]) @ after), w0)"
    by simp
  from analyzeRepository_keeps[OF this s] None show ?thesis
    by blast
next
  case (Some e)
  with analyzeRepository_stops[OF assms(1,2)] assms(3) show ?thesis
    by simp
qed

lemma scanEntries_reaches:
  assumes "scanEntries h owner repo branch before a w = (None, a1, w1)"
    and "analyzeEntry h owner repo branch entry a1 w1 = s"
  shows "scanEntries h owner repo branch (before @ [entry]) a w = s"
  using assms
  by (cases s) (auto simp: scanEntries_append split: option.splits)

subsection \<open>The container-build rule\<close>





subsection \<open>The rules on an entry the scan reaches\<close>




text \<open>
  Claim C6, as stated, on a root directory that lists the file "main.tf" and then the
  directory "k8s-manifests", when the host answers the request for "main.tf" with
  status 404. The fetch of the first entry throws and ends the scan; the second entry,
  whose name contains "k8s", is never looked at and the orchestration flag stays false.
\<close>

theorem kubernetes_flag_counterexample:
  "isKubernetes (js ''k8s-manifests'')
   \<and> fst (analyzeRepository
        (sampleHost [rootEntry (js ''main.tf'') (js ''file''),
                     rootEntry (js ''k8s-manifests'') (js ''directory'')] [js ''/main.tf''])
        (js ''o'') (js ''r'') None signedIn)
     = Inr \<lparr>hasDockerCompose = False, hasDockerfile = False, hasTerraform = True,
            hasKubernetes = False, dockerComposeFile = None, dockerfiles = [],
            terraformFiles = [], kubernetesFiles = []\<rparr>"
proof -
  let ?es = "[rootEntry (js ''main.tf'') (js ''file''),
              rootEntry (js ''k8s-manifests'') (js ''directory'')]"
  have "\<not> list_ex (endsWith (url (sampleRequest []))) [js ''/main.tf'']"
    by (simp add: url_eval string_defs)
  then have l: "getRepoContents (sampleHost ?es [js ''/main.tf'']) (js ''o'') (js ''r'') []
      None signedIn = (Inr ?es, signedInAfter [sampleRequest []])"
    by (rule sample_listing_found)
  have s: "fst (snd (scanEntries (sampleHost ?es [js ''/main.tf'']) (js ''o'') (js ''r'')
      None ?es emptyAnalysis (signedInAfter [sampleRequest []])))
      = emptyAnalysis\<lparr>hasTerraform := True\<rparr>"
    by (simp add: scan_eval url_eval string_defs)
  have n: "isKubernetes (js ''k8s-manifests'')"
    by (simp add: isKubernetes_def string_defs)
  from s show ?thesis
    by (simp add: n analyzeRepository_def l emptyAnalysis_def split: prod.splits option.splits)
qed

text \<open>
  Claim C6, amended. Take a root entry that the scan reaches (the listing succeeded and
  no fetch for an entry before it failed) whose name contains "k8s" or "kubernetes", as
  written, in lower case, and let the fetches that the container-build and provisioning
  rules make for this entry succeed, so that the orchestration rule is reached. Then the
  orchestration flag is true in the analysis returned, whatever happens afterwards. If
  the entry's type is not "file" the rule does nothing else: no request is issued and
  the orchestration collection is as it was before the entry, and the scan goes on to
  the next entry. If the type is "file" the rule fetches the file at the entry's path,
  and when that fetch succeeds it appends the file fetched, and nothing else, to the
  collection; that file is still in the collection returned. So a directory
  "k8s-manifests" sets the flag and contributes no file.
\<close>

theorem reached_kubernetes_entry:
  assumes "getRepoContents h owner repo [] branch w = (Inr (before @ entry # after), w0)"
    and "scanEntries h owner repo branch before emptyAnalysis w0 = (None, a1, w1)"
    and "isKubernetes (name entry)"
    and "isDockerfile (name entry) \<longrightarrow>
           getRepoFile h owner repo (path entry) branch w1 = (Inr fD, wD)"
    and "\<not> isDockerfile (name entry) \<longrightarrow> wD = w1"
    and "isTerraform (name entry) \<longrightarrow>
           getRepoFile h owner repo (path entry) branch wD = (Inr fT, wT)"
    and "\<not> isTerraform (name entry) \<longrightarrow> wT = wD"
    and "a3 = a1\<lparr>hasDockerfile := hasDockerfile a1 \<or> isDockerfile (name entry),
                  dockerfiles := dockerfiles a1 @ (if isDockerfile (name entry) then [fD] else []),
                  hasTerraform := hasTerraform a1 \<or> isTerraform (name entry),
                  terraformFiles :=
                    terraformFiles a1 @ (if isTerraform (name entry) then [fT] else [])\<rparr>"
  shows "\<exists>a. fst (analyzeRepository h owner repo branch w) = Inr a
    \<and> hasKubernetes a
    \<and> (type entry \<noteq> Some (js ''file'') \<longrightarrow>
          scanEntries h owner repo branch (before @ [entry]) emptyAnalysis w0 =
            (None, a3\<lparr>hasKubernetes := True\<rparr>, wT)
          \<and> (\<exists>res v. scanEntries h owner repo branch after (a3\<lparr>hasKubernetes := True\<rparr>) wT
                       = (res, a, v)))
    \<and> (type entry = Some (js ''file'') \<longrightarrow>
          (\<forall>fK wK. getRepoFile h owner repo (path entry) branch wT = (Inr fK, wK) \<longrightarrow>
             scanEntries h owner repo branch (before @ [entry]) emptyAnalysis w0 =
               (None,
                a3\<lparr>hasKubernetes := True, kubernetesFiles := kubernetesFiles a1 @ [fK]\<rparr>,
                wK)
             \<and> prefix (kubernetesFiles a1 @ [fK]) (kubernetesFiles a))
          \<and> (\<forall>e w2. getRepoFile h owner repo (path entry) branch wT = (Inl e, w2) \<longrightarrow>
                a = a3\<lparr>hasKubernetes := True\<rparr>))
    \<and> (\<forall>n. isKubernetes n = (sublist (js ''k8s'') n \<or> sublist (js ''kubernetes'') n))
    \<and> isKubernetes (js ''k8s-manifests'')
    \<and> \<not> isKubernetes (js ''K8S-manifests'')"
proof -
  note nc = isKubernetes_not_compose[OF assms(3)]
  have names: "isKubernetes (js ''k8s-manifests'')" "\<not> isKubernetes (js ''K8S-manifests'')"
    by (simp_all add: isKubernetes_def string_defs)
  have spelled: "\<forall>n. isKubernetes n = (sublist (js ''k8s'') n \<or> sublist (js ''kubernetes'') n)"
    by (simp add: isKubernetes_def includes'_def)
  obtain res a2 w2 where e: "analyzeEntry h owner repo branch entry a1 w1 = (res, a2, w2)"
    by (cases "analyzeEntry h owner repo branch entry a1 w1") auto
  from analyzeRepository_after_entry[OF assms(1,2) e] obtain a where
    a: "fst (analyzeRepository h owner repo branch w) = Inr a"
    and flag: "hasKubernetes a2 \<longrightarrow> hasKubernetes a"
    and coll: "prefix (kubernetesFiles a2) (kubernetesFiles a)"
    and goes: "res = None \<longrightarrow> (\<exists>r v. scanEntries h owner repo branch after a2 w2 = (r, a, v))"
    and stops: "res \<noteq> None \<longrightarrow> a = a2"
    by blast
  have fetched: "analyzeEntry h owner repo branch entry a1 w1 =
      (None,
       a3\<lparr>hasKubernetes := True,
          kubernetesFiles := kubernetesFiles a1 @
            (if type entry = Some (js ''file'') then [fK] else [])\<rparr>,
       wK)"
    if "type entry = Some (js ''file'') \<longrightarrow>
          getRepoFile h owner repo (path entry) branch wT = (Inr fK, wK)"
      and "type entry \<noteq> Some (js ''file'') \<longrightarrow> wK = wT"
    for fK wK
  proof -
    have c: "matchesDockerCompose (name entry) \<longrightarrow>
            getRepoFile h owner repo (path entry) branch w1 = (Inr fD, w1)"
        "\<not> matchesDockerCompose (name entry) \<longrightarrow> w1 = w1"
      using nc by simp_all
    have k: "isKubernetes (name entry) \<and> type entry = Some (js ''file'') \<longrightarrow>
          getRepoFile h owner repo (path entry) branch wT = (Inr fK, wK)"
        "\<not> (isKubernetes (name entry) \<and> type entry = Some (js ''file'')) \<longrightarrow> wK = wT"
      using that assms(3) by simp_all
    have "analyzeEntry h owner repo branch entry a1 w1 =
     (None,
      a1\<lparr>hasDockerCompose := hasDockerCompose a1 \<or> matchesDockerCompose (name entry),
         dockerComposeFile :=
           (if matchesDockerCompose (name entry) then Some fD else dockerComposeFile a1),
         hasDockerfile := hasDockerfile a1 \<or> isDockerfile (name entry),
         dockerfiles := dockerfiles a1 @ (if isDockerfile (name entry) then [fD] else []),
         hasTerraform := hasTerraform a1 \<or> isTerraform (name entry),
         terraformFiles := terraformFiles a1 @ (if isTerraform (name entry) then [fT] else []),
         hasKubernetes := hasKubernetes a1 \<or> isKubernetes (name entry),
         kubernetesFiles := kubernetesFiles a1 @
           (if isKubernetes (name entry) \<and> type entry = Some (js ''file'') then [fK] else [])\<rparr>,
      wK)"
      by (rule analyzeEntry_all_fetched[OF c assms(4-7) k])
    then show ?thesis
      by (simp add: nc assms(3,8))
  qed
  have failed: "analyzeEntry h owner repo branch entry a1 w1 =
      (Some err, a3\<lparr>hasKubernetes := True\<rparr>, v)"
    if "type entry = Some (js ''file'')"
      and "getRepoFile h owner repo (path entry) branch wT = (Inl err, v)"
    for err v
    using analyzeEntry_kubernetes_fails_after[OF assms(3) that(1) assms(4-7) that(2), of a1]
    by (simp add: assms(8))
  have same: "a3\<lparr>hasKubernetes := True, kubernetesFiles := kubernetesFiles a1\<rparr>
      = a3\<lparr>hasKubernetes := True\<rparr>"
    by (simp add: assms(8))
  have set: "hasKubernetes a2"
  proof (cases "type entry = Some (js ''file'')")
    case False
    with fetched[of undefined wT] e show ?thesis by simp
  next
    case True
    obtain x v where g: "getRepoFile h owner repo (path entry) branch wT = (x, v)"
      by (cases "getRepoFile h owner repo (path entry) branch wT") auto
    show ?thesis
    proof (cases x)
      case (Inl err)
      with failed[OF True] g e show ?thesis by simp
    next
      case (Inr fK)
      with fetched[of fK v] True g e show ?thesis by simp
    qed
  qed
  have dir: "scanEntries h owner repo branch (before @ [entry]) emptyAnalysis w0 =
            (None, a3\<lparr>hasKubernetes := True\<rparr>, wT)
          \<and> (\<exists>res v. scanEntries h owner repo branch after (a3\<lparr>hasKubernetes := True\<rparr>) wT
                       = (res, a, v))"
    if t: "type entry \<noteq> Some (js ''file'')"
  proof -
    from fetched[of undefined wT] t
    have f: "analyzeEntry h owner repo branch entry a1 w1 = (None, a3\<lparr>hasKubernetes := True\<rparr>, wT)"
      by (simp add: same)
    with e goes have "\<exists>res v. scanEntries h owner repo branch after (a3\<lparr>hasKubernetes := True\<rparr>) wT
                       = (res, a, v)"
      by simp
    with scanEntries_reaches[OF assms(2) f] show ?thesis
      by simp
  qed
  have got: "scanEntries h owner repo branch (before @ [entry]) emptyAnalysis w0 =
               (None,
                a3\<lparr>hasKubernetes := True, kubernetesFiles := kubernetesFiles a1 @ [fK]\<rparr>,
                wK)
             \<and> prefix (kubernetesFiles a1 @ [fK]) (kubernetesFiles a)"
    if t: "type entry = Some (js ''file'')"
      and g: "getRepoFile h owner repo (path entry) branch wT = (Inr fK, wK)"
    for fK wK
  proof -
    from fetched[of fK wK] t g
    have f: "analyzeEntry h owner repo branch entry a1 w1 =
        (None, a3\<lparr>hasKubernetes := True, kubernetesFiles := kubernetesFiles a1 @ [fK]\<rparr>, wK)"
      by simp
    with e have "a2 = a3\<lparr>hasKubernetes := True, kubernetesFiles := kubernetesFiles a1 @ [fK]\<rparr>"
      by simp
    with coll have "prefix (kubernetesFiles a1 @ [fK]) (kubernetesFiles a)"
      by simp
    with scanEntries_reaches[OF assms(2) f] show ?thesis
      by simp
  qed
  have lost: "a = a3\<lparr>hasKubernetes := True\<rparr>"
    if t: "type entry = Some (js ''file'')"
      and g: "getRepoFile h owner repo (path entry) branch wT = (Inl err, v)"
    for err v
    using failed[OF t g] e stops by simp
  from set flag have "hasKubernetes a"
    by simp
  with a dir got lost names spelled show ?thesis
    by (intro exI[of _ a] conjI allI impI) blast+
qed

theorem reached_kubernetes_entry_witness:
  "scanEntries
     (sampleHost [rootEntry (js ''k8s-manifests'') (js ''directory''),
                  rootEntry (js ''k8s.yaml'') (js ''file''),
                  rootEntry (js ''main.tf'') (js ''file'')] [js ''/main.tf''])
     (js ''o'') (js ''r'') None [rootEntry (js ''k8s-manifests'') (js ''directory'')]
     emptyAnalysis (signedInAfter [sampleRequest []])
   = (None,
      \<lparr>hasDockerCompose = False, hasDockerfile = False, hasTerraform = False,
        hasKubernetes = True, dockerComposeFile = None, dockerfiles = [],
        terraformFiles = [], kubernetesFiles = []\<rparr>,
      signedInAfter [sampleRequest []])
   \<and> scanEntries
     (sampleHost [rootEntry (js ''k8s-manifests'') (js ''directory''),
                  rootEntry (js ''k8s.yaml'') (js ''file''),
                  rootEntry (js ''main.tf'') (js ''file'')] [js ''/main.tf''])
     (js ''o'') (js ''r'') None
     [rootEntry (js ''k8s-manifests'') (js ''directory''), rootEntry (js ''k8s.yaml'') (js ''file'')]
     emptyAnalysis (signedInAfter [sampleRequest []])
   = (None,
      \<lparr>hasDockerCompose = False, hasDockerfile = False, hasTerraform = False,
        hasKubernetes = True, dockerComposeFile = None, dockerfiles = [],
        terraformFiles = [], kubernetesFiles = [sampleFile (js ''k8s.yaml'')]\<rparr>,
      signedInAfter [sampleRequest [], sampleRequest (js ''k8s.yaml'')])
   \<and> (\<exists>a. fst (analyzeRepository
        (sampleHost [rootEntry (js ''k8s-manifests'') (js ''directory''),
                     rootEntry (js ''k8s.yaml'') (js ''file''),
                     rootEntry (js ''main.tf'') (js ''file'')] [js ''/main.tf''])
        (js ''o'') (js ''r'') None signedIn) = Inr a
      \<and> hasKubernetes a \<and> prefix [sampleFile (js ''k8s.yaml'')] (kubernetesFiles a))
   \<and> analyzeRepository
        (sampleHost [rootEntry (js ''k8s-manifests'') (js ''directory''),
                     rootEntry (js ''k8s.yaml'') (js ''file''),
                     rootEntry (js ''main.tf'') (js ''file'')] [js ''/main.tf''])
        (js ''o'') (js ''r'') None signedIn
     = (Inr \<lparr>hasDockerCompose = False, hasDockerfile = False, hasTerraform = True,
             hasKubernetes = True, dockerComposeFile = None, dockerfiles = [],
             terraformFiles = [], kubernetesFiles = [sampleFile (js ''k8s.yaml'')]\<rparr>,
        (signedInAfter [sampleRequest [], sampleRequest (js ''k8s.yaml''),
                        sampleRequest (js ''main.tf'')])
          \<lparr>console := [Error (js ''GitHub API error: Not Found'')]\<rparr>)
   \<and> sampleFile (js ''k8s.yaml'') \<noteq> rootEntry (js ''k8s.yaml'') (js ''file'')"
proof -
  let ?dir = "rootEntry (js ''k8s-manifests'') (js ''directory'')"
  let ?yaml = "rootEntry (js ''k8s.yaml'') (js ''file'')"
  let ?tf = "rootEntry (js ''main.tf'') (js ''file'')"
  let ?h = "sampleHost [?dir, ?yaml, ?tf] [js ''/main.tf'']"
  let ?w0 = "signedInAfter [sampleRequest []]"
  let ?a1 = "emptyAnalysis\<lparr>hasKubernetes := True\<rparr>"
  let ?f = "sampleFile (js ''k8s.yaml'')"
  let ?a2 = "emptyAnalysis\<lparr>hasKubernetes := True, kubernetesFiles := [?f]\<rparr>"
  let ?w2 = "signedInAfter ([sampleRequest []] @ [sampleRequest (js ''k8s.yaml'')])"
  note t = reached_kubernetes_entry
  have "\<not> list_ex (endsWith (url (sampleRequest []))) [js ''/main.tf'']"
    by (simp add: url_eval string_defs)
  then have l0: "getRepoContents ?h (js ''o'') (js ''r'') [] None signedIn
      = (Inr [?dir, ?yaml, ?tf], ?w0)"
    by (rule sample_listing_found)
  \<comment> \<open>the directory\<close>
  from l0 have l: "getRepoContents ?h (js ''o'') (js ''r'') [] None signedIn
      = (Inr ([] @ ?dir # [?yaml, ?tf]), ?w0)"
    by simp
  have s: "scanEntries ?h (js ''o'') (js ''r'') None [] emptyAnalysis ?w0
      = (None, emptyAnalysis, ?w0)"
    by simp
  have n: "isKubernetes (name ?dir)" "\<not> isDockerfile (name ?dir)" "\<not> isTerraform (name ?dir)"
    "type ?dir \<noteq> Some (js ''file'')"
    by (simp_all add: isDockerfile_def isTerraform_def isKubernetes_def rootEntry_def string_defs)
  from n have hD: "isDockerfile (name ?dir) \<longrightarrow>
        getRepoFile ?h (js ''o'') (js ''r'') (path ?dir) None ?w0 = (Inr ?f, ?w0)"
    and hD': "\<not> isDockerfile (name ?dir) \<longrightarrow> ?w0 = ?w0"
    and hT: "isTerraform (name ?dir) \<longrightarrow>
        getRepoFile ?h (js ''o'') (js ''r'') (path ?dir) None ?w0 = (Inr ?f, ?w0)"
    and hT': "\<not> isTerraform (name ?dir) \<longrightarrow> ?w0 = ?w0"
    by simp_all
  from t[OF l s n(1) hD hD' hT hT' refl] n
  have d: "scanEntries ?h (js ''o'') (js ''r'') None ([] @ [?dir]) emptyAnalysis ?w0 =
      (None,
       emptyAnalysis\<lparr>hasDockerfile := hasDockerfile emptyAnalysis \<or> False,
         dockerfiles := dockerfiles emptyAnalysis @ [],
         hasTerraform := hasTerraform emptyAnalysis \<or> False,
         terraformFiles := terraformFiles emptyAnalysis @ [],
         hasKubernetes := True\<rparr>,
       ?w0)"
    by auto
  then have d2: "scanEntries ?h (js ''o'') (js ''r'') None [?dir] emptyAnalysis ?w0 = (None, ?a1, ?w0)"
    by (simp add: emptyAnalysis_def)
  \<comment> \<open>the file\<close>
  from l0 have l': "getRepoContents ?h (js ''o'') (js ''r'') [] None signedIn
      = (Inr ([?dir] @ ?yaml # [?tf]), ?w0)"
    by simp
  have n': "isKubernetes (name ?yaml)" "\<not> isDockerfile (name ?yaml)"
    "\<not> isTerraform (name ?yaml)" "type ?yaml = Some (js ''file'')"
    by (simp_all add: isDockerfile_def isTerraform_def isKubernetes_def rootEntry_def string_defs)
  from n' have kD: "isDockerfile (name ?yaml) \<longrightarrow>
        getRepoFile ?h (js ''o'') (js ''r'') (path ?yaml) None ?w0 = (Inr ?f, ?w0)"
    and kD': "\<not> isDockerfile (name ?yaml) \<longrightarrow> ?w0 = ?w0"
    and kT: "isTerraform (name ?yaml) \<longrightarrow>
        getRepoFile ?h (js ''o'') (js ''r'') (path ?yaml) None ?w0 = (Inr ?f, ?w0)"
    and kT': "\<not> isTerraform (name ?yaml) \<longrightarrow> ?w0 = ?w0"
    by simp_all
  have p: "path ?yaml = js ''k8s.yaml''"
    by (simp add: rootEntry_def)
  have "\<not> list_ex (endsWith (url (sampleRequest (js ''k8s.yaml'')))) [js ''/main.tf'']"
    by (simp add: url_eval string_defs)
  then have fK: "getRepoFile ?h (js ''o'') (js ''r'') (path ?yaml) None ?w0 = (Inr ?f, ?w2)"
    unfolding p by (rule sample_file_found_js)
  from t[OF l' d2 n'(1) kD kD' kT kT' refl] obtain a where
    a: "fst (analyzeRepository ?h (js ''o'') (js ''r'') None signedIn) = Inr a"
    and flag: "hasKubernetes a"
    and got: "type ?yaml = Some (js ''file'') \<longrightarrow>
          (\<forall>fK wK. getRepoFile ?h (js ''o'') (js ''r'') (path ?yaml) None ?w0 = (Inr fK, wK) \<longrightarrow>
             scanEntries ?h (js ''o'') (js ''r'') None ([?dir] @ [?yaml]) emptyAnalysis ?w0 =
               (None,
                ?a1\<lparr>hasDockerfile := hasDockerfile ?a1 \<or> isDockerfile (name ?yaml),
                  dockerfiles := dockerfiles ?a1 @ (if isDockerfile (name ?yaml) then [?f] else []),
                  hasTerraform := hasTerraform ?a1 \<or> isTerraform (name ?yaml),
                  terraformFiles :=
                    terraformFiles ?a1 @ (if isTerraform (name ?yaml) then [?f] else []),
                  hasKubernetes := True, kubernetesFiles := kubernetesFiles ?a1 @ [fK]\<rparr>,
                wK)
             \<and> prefix (kubernetesFiles ?a1 @ [fK]) (kubernetesFiles a))
          \<and> (\<forall>e w2. getRepoFile ?h (js ''o'') (js ''r'') (path ?yaml) None ?w0 = (Inl e, w2) \<longrightarrow>
                a = ?a1\<lparr>hasDockerfile := hasDockerfile ?a1 \<or> isDockerfile (name ?yaml),
                  dockerfiles := dockerfiles ?a1 @ (if isDockerfile (name ?yaml) then [?f] else []),
                  hasTerraform := hasTerraform ?a1 \<or> isTerraform (name ?yaml),
                  terraformFiles :=
                    terraformFiles ?a1 @ (if isTerraform (name ?yaml) then [?f] else []),
                  hasKubernetes := True\<rparr>)"
    by (elim exE conjE) (rule that)
  from got[rule_format, OF n'(4), THEN conjunct1, rule_format, OF fK] n'
  have e: "scanEntries ?h (js ''o'') (js ''r'') None [?dir, ?yaml] emptyAnalysis ?w0
      = (None, ?a2, ?w2)"
    and g: "prefix [?f] (kubernetesFiles a)"
    by (simp_all add: emptyAnalysis_def)
  \<comment> \<open>the scan as a whole, which the third entry cuts short\<close>
  have "list_ex (endsWith (url (sampleRequest (path ?tf)))) [js ''/main.tf'']"
    by (simp add: url_eval string_defs rootEntry_def)
  then have "getRepoFile ?h (js ''o'') (js ''r'') (path ?tf) None ?w2
      = (Inl (Error (js ''GitHub API error: Not Found'')),
         signedInAfter (([sampleRequest []] @ [sampleRequest (js ''k8s.yaml'')])
                        @ [sampleRequest (path ?tf)]))"
    by (rule sample_file_missing_js)
  moreover have "isTerraform (name ?tf)" "\<not> isDockerfile (name ?tf)"
    by (simp_all add: isTerraform_def isDockerfile_def rootEntry_def string_defs)
  ultimately have "analyzeEntry ?h (js ''o'') (js ''r'') None ?tf ?a2 ?w2
     = (Some (Error (js ''GitHub API error: Not Found'')), ?a2\<lparr>hasTerraform := True\<rparr>,
        signedInAfter (([sampleRequest []] @ [sampleRequest (js ''k8s.yaml'')])
                        @ [sampleRequest (path ?tf)]))"
    by (intro analyzeEntry_terraform_fetch_fails)
  from analyzeRepository_stops[where before = "[?dir, ?yaml]" and after = "[]", OF _ e this] l0
  have whole: "analyzeRepository ?h (js ''o'') (js ''r'') None signedIn
     = (Inr \<lparr>hasDockerCompose = False, hasDockerfile = False, hasTerraform = True,
             hasKubernetes = True, dockerComposeFile = None, dockerfiles = [],
             terraformFiles = [], kubernetesFiles = [?f]\<rparr>,
        (signedInAfter [sampleRequest [], sampleRequest (js ''k8s.yaml''),
                        sampleRequest (js ''main.tf'')])
          \<lparr>console := [Error (js ''GitHub API error: Not Found'')]\<rparr>)"
    by (simp add: emptyAnalysis_def rootEntry_def)
  from d2 have d3: "scanEntries ?h (js ''o'') (js ''r'') None [?dir] emptyAnalysis ?w0
   = (None,
      \<lparr>hasDockerCompose = False, hasDockerfile = False, hasTerraform = False,
        hasKubernetes = True, dockerComposeFile = None, dockerfiles = [],
        terraformFiles = [], kubernetesFiles = []\<rparr>, ?w0)"
    by (simp add: emptyAnalysis_def)
  from e have e2: "scanEntries ?h (js ''o'') (js ''r'') None [?dir, ?yaml] emptyAnalysis ?w0
   = (None,
      \<lparr>hasDockerCompose = False, hasDockerfile = False, hasTerraform = False,
        hasKubernetes = True, dockerComposeFile = None, dockerfiles = [],
        terraformFiles = [], kubernetesFiles = [?f]\<rparr>,
      signedInAfter [sampleRequest [], sampleRequest (js ''k8s.yaml'')])"
    by (simp add: emptyAnalysis_def)
  from a flag g have g2: "\<exists>a. fst (analyzeRepository ?h (js ''o'') (js ''r'') None signedIn) = Inr a
      \<and> hasKubernetes a \<and> prefix [?f] (kubernetesFiles a)"
    by blast
  have differ: "?f \<noteq> rootEntry (js ''k8s.yaml'') (js ''file'')"
    by (simp add: sampleFile_def blob_def rootEntry_def js_def)
  from d3 e2 g2 whole differ show ?thesis
    by (intro conjI)
qed




section \<open>Writing and reading back\<close>

lemma indexOf_nth: "distinct xs \<Longrightarrow> n < length xs \<Longrightarrow> indexOf (xs ! n) xs = Some n"
proof (induction xs arbitrary: n)
  case Nil
  then show ?case by simp
next
  case (Cons x xs)
  then show ?case by (cases n) auto
qed

lemma alphabet_length: "length base64Alphabet = 64"
  by (simp add: base64Alphabet_def js_def)

lemma alphabet_distinct: "distinct base64Alphabet"
  by (simp add: base64Alphabet_def js_def)

lemma alphabet_plain:
  "list_all (\<lambda>c. c \<noteq> padChar \<and> \<not> isAsciiWhitespace c) base64Alphabet"
  by (simp add: base64Alphabet_def js_def padChar_def isAsciiWhitespace_def)

lemma base64Char_in_alphabet: "base64Char n \<in> set base64Alphabet"
  by (simp add: base64Char_def alphabet_length)

lemma base64Index_base64Char: "n < 64 \<Longrightarrow> base64Index (base64Char n) = Some n"
  by (simp add: base64Index_def base64Char_def indexOf_nth alphabet_distinct alphabet_length)

lemma base64Char_no_pad [simp]: "base64Char n \<noteq> padChar"
  using alphabet_plain base64Char_in_alphabet[of n] by (auto simp: list_all_iff)

lemma base64Char_no_space [simp]: "\<not> isAsciiWhitespace (base64Char n)"
  using alphabet_plain base64Char_in_alphabet[of n] by (auto simp: list_all_iff)

lemma padChar_no_space [simp]: "\<not> isAsciiWhitespace padChar"
  by (simp add: padChar_def isAsciiWhitespace_def)

lemma base64Encode_no_space:
  "filter (\<lambda>c. \<not> isAsciiWhitespace c) (base64Encode bs) = base64Encode bs"
  by (induction bs rule: base64Encode.induct) simp_all

lemma length_base64Encode: "length (base64Encode bs) mod 4 = 0"
  by (induction bs rule: base64Encode.induct) simp_all

lemma dropPad_append: "ys \<noteq> [] \<Longrightarrow> dropPad (xs @ ys) = xs @ dropPad ys"
  by (simp add: dropPad_def butlast_append)

lemma stripPadding_group:
  assumes "length e mod 4 = 0" and "c4 \<noteq> padChar"
  shows "stripPadding (c1 # c2 # c3 # c4 # e) = c1 # c2 # c3 # c4 # stripPadding e"
proof (cases "e = []")
  case True
  with assms(2) show ?thesis by (simp add: stripPadding_def dropPad_def)
next
  case False
  with assms(1) have l: "4 \<le> length e"
    by (cases e) (auto simp: mod_eq_0_iff_dvd dest: dvd_imp_le)
  then have n: "dropPad e \<noteq> []"
    by (cases e) (auto simp: dropPad_def)
  have 1: "dropPad (c1 # c2 # c3 # c4 # e) = c1 # c2 # c3 # c4 # dropPad e"
    using dropPad_append[OF False, of "[c1, c2, c3, c4]"] by simp
  have 2: "dropPad (c1 # c2 # c3 # c4 # dropPad e) = c1 # c2 # c3 # c4 # dropPad (dropPad e)"
    using dropPad_append[OF n, of "[c1, c2, c3, c4]"] by simp
  from assms(1) show ?thesis
    by (simp add: stripPadding_def 1 2)
qed

lemma pack16:
  fixes q x :: nat
  assumes "q < 4" and "x < 16"
  shows "(q * 16 + x) div 16 = q" and "(q * 16 + x) mod 16 = x" and "q * 16 + x < 64"
  using assms by simp_all

lemma pack4:
  fixes q y :: nat
  assumes "q < 16" and "y < 4"
  shows "(q * 4 + y) div 4 = q" and "(q * 4 + y) mod 4 = y" and "q * 4 + y < 64"
  using assms by simp_all

lemma byte_parts:
  fixes b :: nat
  assumes "b < 256"
  shows "b div 4 < 64" and "b div 16 < 16" and "b div 64 < 4"
  using assms by (simp_all add: less_mult_imp_div_less)

lemma sextets_to_bytes:
  fixes a b c :: nat
  assumes "a < 256" "b < 256" "c < 256"
  shows "a div 4 * 4 + ((a mod 4) * 16 + b div 16) div 16 = a"
    and "(((a mod 4) * 16 + b div 16) mod 16) * 16 + ((b mod 16) * 4 + c div 64) div 4 = b"
    and "(((b mod 16) * 4 + c div 64) mod 4) * 64 + c mod 64 = c"
    and "a div 4 < 64" and "(a mod 4) * 16 + b div 16 < 64"
    and "(b mod 16) * 4 + c div 64 < 64" and "c mod 64 < 64"
proof -
  have q: "a mod 4 < 4" "b mod 16 < 16" by simp_all
  note x = byte_parts(2)[OF assms(2)] and y = byte_parts(3)[OF assms(3)]
  show "a div 4 * 4 + ((a mod 4) * 16 + b div 16) div 16 = a"
    by (simp only: pack16(1)[OF q(1) x] div_mult_mod_eq)
  show "(((a mod 4) * 16 + b div 16) mod 16) * 16 + ((b mod 16) * 4 + c div 64) div 4 = b"
    by (simp only: pack16(2)[OF q(1) x] pack4(1)[OF q(2) y] div_mult_mod_eq)
  show "(((b mod 16) * 4 + c div 64) mod 4) * 64 + c mod 64 = c"
    by (simp only: pack4(2)[OF q(2) y] div_mult_mod_eq)
  show "a div 4 < 64" by (rule byte_parts(1)[OF assms(1)])
  show "(a mod 4) * 16 + b div 16 < 64" by (rule pack16(3)[OF q(1) x])
  show "(b mod 16) * 4 + c div 64 < 64" by (rule pack4(3)[OF q(2) y])
  show "c mod 64 < 64" by simp
qed

lemma roundtrip_bytes:
  assumes "\<forall>b\<in>set bs. b < 256"
  shows "length (stripPadding (base64Encode bs)) mod 4 \<noteq> 1
       \<and> (\<exists>sx. those (map base64Index (stripPadding (base64Encode bs))) = Some sx
                \<and> base64Decode sx = bs)"
  using assms
proof (induction bs rule: base64Encode.induct)
  case (1 a b c rest)
  then have r: "\<forall>b\<in>set rest. b < 256" and bd: "a < 256" "b < 256" "c < 256"
    by simp_all
  from 1(1)[OF r] obtain sx where
    l: "length (stripPadding (base64Encode rest)) mod 4 \<noteq> 1"
    and sx: "those (map base64Index (stripPadding (base64Encode rest))) = Some sx"
    and d: "base64Decode sx = rest"
    by blast
  note ar = sextets_to_bytes[OF bd]
  have s: "stripPadding (base64Encode (a # b # c # rest)) =
      base64Char (a div 4) # base64Char ((a mod 4) * 16 + b div 16)
      # base64Char ((b mod 16) * 4 + c div 64) # base64Char (c mod 64)
      # stripPadding (base64Encode rest)"
    by (simp add: stripPadding_group length_base64Encode)
  have t: "those (map base64Index (stripPadding (base64Encode (a # b # c # rest)))) =
      Some (a div 4 # ((a mod 4) * 16 + b div 16) # ((b mod 16) * 4 + c div 64) # c mod 64 # sx)"
    unfolding s by (simp add: base64Index_base64Char ar(4-7) sx)
  have "base64Decode (a div 4 # ((a mod 4) * 16 + b div 16) # ((b mod 16) * 4 + c div 64)
          # c mod 64 # sx) = a # b # c # rest"
    by (simp only: base64Decode.simps ar(1-3) d append_Cons append_Nil)
  moreover have "length (stripPadding (base64Encode (a # b # c # rest))) mod 4 \<noteq> 1"
    unfolding s using l by (simp add: mod_Suc)
  ultimately show ?case using t by blast
next
  case (2 a b)
  then have bd: "a < 256" "b < 256" "(0::nat) < 256" by simp_all
  note ar = sextets_to_bytes[OF bd, simplified]
  have s: "stripPadding (base64Encode [a, b]) =
      [base64Char (a div 4), base64Char ((a mod 4) * 16 + b div 16), base64Char ((b mod 16) * 4)]"
    by (simp add: stripPadding_def dropPad_def)
  show ?case
    unfolding s using ar by (simp add: base64Index_base64Char)
next
  case (3 a)
  then have bd: "a < 256" "(0::nat) < 256" by simp_all
  note ar = sextets_to_bytes[OF bd(1) bd(2) bd(2), simplified]
  have s: "stripPadding (base64Encode [a]) = [base64Char (a div 4), base64Char ((a mod 4) * 16)]"
    by (simp add: stripPadding_def dropPad_def)
  show ?case
    unfolding s using ar by (simp add: base64Index_base64Char)
next
  case 4
  show ?case by (simp add: stripPadding_def dropPad_def)
qed

text \<open>
  A text of code units up to 0xFF that \<open>updateRepoFile\<close> encodes for the host (line
  139) is given back unchanged by the decoding step of \<open>getRepoFile\<close> (line 103):
  \<^verbatim>\<open>atob(btoa(text))\<close> is the text.
\<close>

theorem atob_btoa:
  assumes "\<forall>c\<in>set text'. c \<le> 0xFF"
  shows "\<exists>encoded. btoa text' = Inr encoded \<and> atob encoded = Inr text'"
proof -
  have "\<not> list_ex (\<lambda>c. 0xFF < c) text'"
    using assms by (auto simp: list_ex_iff)
  then have b: "btoa text' = Inr (base64Encode (map unat text'))"
    by (simp add: btoa_def)
  have "\<forall>b\<in>set (map unat text'). b < 256"
    using assms by (auto simp: word_le_nat_alt)
  from roundtrip_bytes[OF this] obtain sx where
    "length (stripPadding (base64Encode (map unat text'))) mod 4 \<noteq> 1"
    "those (map base64Index (stripPadding (base64Encode (map unat text')))) = Some sx"
    "base64Decode sx = map unat text'"
    by blast
  then have "atob (base64Encode (map unat text')) = Inr text'"
    by (simp add: atob_def base64Encode_no_space Let_def comp_def)
  with b show ?thesis by simp
qed

theorem atob_btoa_witness:
  "btoa (js ''hi'') = Inr (js ''aGk='') \<and> atob (js ''aGk='') = Inr (js ''hi'')"
proof -
  have "\<forall>c\<in>set (js ''hi''). c \<le> 0xFF"
    by (simp add: js_def)
  from atob_btoa[OF this] obtain encoded where
    "btoa (js ''hi'') = Inr encoded" "atob encoded = Inr (js ''hi'')"
    by blast
  moreover have "btoa (js ''hi'') = Inr (js ''aGk='')"
    by (simp add: btoa_def js_def base64Char_def base64Alphabet_def padChar_def)
  ultimately show ?thesis by simp
qed

end
